theory Spec2Isabelle
  imports Complex_Main
begin

section \<open>Shared vocabulary: strings, clock readings, errors\<close>

text \<open>
  Python strings are modelled as \<open>string\<close>; a \<open>char\<close> stands for a code point below 256.
  \<open>isspace\<close> lists the code points below 256 that Python's \<open>str.strip()\<close> removes:
  tab, line feed, vertical tab, form feed, carriage return, the four separators
  0x1C..0x1F, space, next-line 0x85 and no-break space 0xA0.
\<close>

definition isspace :: "char \<Rightarrow> bool" where
  "isspace c = (c \<in> {CHR 0x09, CHR 0x0A, CHR 0x0B, CHR 0x0C, CHR 0x0D,
                       CHR 0x1C, CHR 0x1D, CHR 0x1E, CHR 0x1F, CHR 0x20,
                       CHR 0x85, CHR 0xA0})"

definition strip :: "string \<Rightarrow> string" where
  "strip s = rev (dropWhile isspace (rev (dropWhile isspace s)))"

text \<open>
  The guard \<^verbatim>\<open>not s or not s.strip()\<close> of the entity constructors.
\<close>

definition vacio :: "string \<Rightarrow> bool" where
  "vacio s = (s = [] \<or> strip s = [])"

text \<open>
  \<^verbatim>\<open>datetime.now()\<close> is an input of the model: every function that reads the clock takes
  the reading as its first argument, and all reads within one call get that reading.
\<close>

type_synonym datetime = nat

datatype TipoCisterna = FAMILIAR | COMUNITARIA | ESCOLAR | CENTRO_SALUD

datatype EstadoCisterna = OPERATIVA | DANADA | EN_MANTENIMIENTO | INACTIVA

text \<open>
  Every failure of the domain and application layers is a Python \<open>ValueError\<close>; the
  constructors of \<open>msg\<close> name the raise sites (one per message text).  The other three
  are exceptions of the driver: \<open>InvalidId\<close> of \<open>ObjectId\<close> on a malformed identifier,
  \<open>OverflowError\<close> of the BSON encoder on an integer outside 64 bits, and
  \<open>DuplicateKeyError\<close> of an insert that violates a unique index.
\<close>

datatype msg =
    Ubicacion_vacia
  | Capacidad_total_no_positiva
  | Nivel_actual_negativo
  | Nivel_actual_mayor_capacidad
  | Cantidad_no_positiva
  | No_hay_suficiente_agua int int
  | Nivel_negativo
  | Nivel_mayor_capacidad int int
  | Direccion_vacia
  | Num_personas_no_positivo
  | Capacidad_almacenamiento_no_positiva
  | Contacto_vacio
  | Cisterna_id_vacio
  | Litros_no_positivos
  | Costo_negativo
  | Proveedor_vacio
  | Nivel_anterior_negativo
  | Nivel_posterior_menor
  | Familia_id_vacio
  | Descripcion_vacia
  | Contacto_ya_existe string
  | Familia_no_encontrada string
  | Cisterna_no_encontrada string
  | Cisterna_no_operativa EstadoCisterna
  | Tipo_cisterna_invalido string
  | Tipo_reporte_invalido string
  | Urgencia_invalida string
  | Familia_sin_id
  | Cisterna_sin_id

datatype error = ValueError msg | InvalidId string | OverflowError | DuplicateKeyError

section \<open>Entity Cisterna (domain/entities/cisterna.py)\<close>

record Cisterna =
  c_ubicacion :: string
  c_tipo :: TipoCisterna
  c_capacidad_total :: int
  c_nivel_actual :: int
  c_latitud :: "real option"
  c_longitud :: "real option"
  c_familia_id :: "string option"
  c_estado :: EstadoCisterna
  c_id :: "string option"
  c_fecha_instalacion :: "datetime option"
  c_ultima_actualizacion :: "datetime option"

text \<open>
  \<open>Cisterna.__post_init__\<close>: the dataclass has stored the fields in \<open>self\<close>; the hook
  validates them in the order of the source, normalises the location and fills the two
  dates.  The result is the validated object or the \<open>ValueError\<close> raised.  The fields
  \<open>tipo\<close> and \<open>estado\<close> hold enumeration members, as every caller in the repository passes
  them, so the two \<open>isinstance(..., str)\<close> conversions do not apply.
\<close>

definition Cisterna_post_init :: "datetime \<Rightarrow> Cisterna \<Rightarrow> error + Cisterna" where
  "Cisterna_post_init now self =
     (if vacio (c_ubicacion self) then Inl (ValueError Ubicacion_vacia)
      else if c_capacidad_total self \<le> 0 then Inl (ValueError Capacidad_total_no_positiva)
      else if c_nivel_actual self < 0 then Inl (ValueError Nivel_actual_negativo)
      else if c_nivel_actual self > c_capacidad_total self
        then Inl (ValueError Nivel_actual_mayor_capacidad)
      else Inr (self\<lparr>c_ubicacion := strip (c_ubicacion self),
                      c_fecha_instalacion :=
                        (case c_fecha_instalacion self of None \<Rightarrow> Some now | Some d \<Rightarrow> Some d),
                      c_ultima_actualizacion :=
                        (case c_ultima_actualizacion self of None \<Rightarrow> Some now | Some d \<Rightarrow> Some d)\<rparr>))"

text \<open>
  The mutating methods return the outcome (\<open>Inr ()\<close>, or \<open>Inl\<close> the exception) together
  with the object as it is after the call, so that what a failing call leaves behind is
  part of the model.
\<close>

definition llenar :: "datetime \<Rightarrow> int \<Rightarrow> Cisterna \<Rightarrow> (error + unit) \<times> Cisterna" where
  "llenar now litros self =
     (if litros \<le> 0 then (Inl (ValueError Cantidad_no_positiva), self)
      else
        let nuevo_nivel = c_nivel_actual self + litros;
            self1 = (if nuevo_nivel > c_capacidad_total self
                     then self\<lparr>c_nivel_actual := c_capacidad_total self\<rparr>
                     else self\<lparr>c_nivel_actual := nuevo_nivel\<rparr>)
        in (Inr (), self1\<lparr>c_ultima_actualizacion := Some now\<rparr>))"

definition consumir :: "datetime \<Rightarrow> int \<Rightarrow> Cisterna \<Rightarrow> (error + unit) \<times> Cisterna" where
  "consumir now litros self =
     (if litros \<le> 0 then (Inl (ValueError Cantidad_no_positiva), self)
      else if litros > c_nivel_actual self
        then (Inl (ValueError (No_hay_suficiente_agua (c_nivel_actual self) litros)), self)
      else (Inr (), self\<lparr>c_nivel_actual := c_nivel_actual self - litros,
                           c_ultima_actualizacion := Some now\<rparr>))"

text \<open>
  A history of level operations on one tank: each entry is a call of \<open>llenar\<close> or
  \<open>consumir\<close> with its clock reading; a call that raises leaves the object as the method
  left it and the history goes on.
\<close>

datatype operacion = Llenar datetime int | Consumir datetime int

fun aplicar :: "operacion \<Rightarrow> Cisterna \<Rightarrow> (error + unit) \<times> Cisterna" where
  "aplicar (Llenar now litros) c = llenar now litros c"
| "aplicar (Consumir now litros) c = consumir now litros c"

fun historia :: "operacion list \<Rightarrow> Cisterna \<Rightarrow> Cisterna" where
  "historia [] c = c"
| "historia (p # ps) c = historia ps (snd (aplicar p c))"

text \<open>
  Python floats are IEEE binary64 numbers.  A finite one is kept as an integer numerator
  over a power of two.  \<open>nearest64 p q\<close> is the binary64 number nearest to the fraction
  \<open>p / q\<close>, ties going to the even significand: the fraction is scaled by the power of two
  \<open>k\<close> that brings it into \<open>[2^52, 2^53)\<close> and rounded to an integer there.  The exponent
  range is not modelled: quotients and percentages of 64-bit integers stay far inside it.
\<close>

type_synonym float64 = "int \<times> int"

function bits :: "int \<Rightarrow> int" where
  "bits n = (if n \<le> 0 then 0 else 1 + bits (n div 2))"
  by pat_completeness auto
termination
  by (relation "measure nat") auto

declare bits.simps [simp del]

definition round_half_even :: "int \<Rightarrow> int \<Rightarrow> int" where
  "round_half_even p q =
     (let d = p div q; r = p mod q
      in if 2 * r < q then d
         else if 2 * r > q then d + 1
         else if even d then d else d + 1)"

definition num_scale :: "int \<Rightarrow> int" where
  "num_scale k = (if 0 \<le> k then 2 ^ nat k else 1)"

definition den_scale :: "int \<Rightarrow> int" where
  "den_scale k = (if 0 \<le> k then 1 else 2 ^ nat (- k))"

definition nearest64 :: "int \<Rightarrow> int \<Rightarrow> float64" where
  "nearest64 p q =
     (if p = 0 \<or> q = 0 then (0, 1)
      else
        let a = \<bar>p\<bar>; b = \<bar>q\<bar>;
            k0 = 52 - (bits a - bits b);
            k = (if a * num_scale k0 < 2 ^ 52 * (b * den_scale k0) then k0 + 1 else k0);
            m = round_half_even (a * num_scale k) (b * den_scale k)
        in (sgn p * sgn q * m * den_scale k, num_scale k))"

text \<open>
  \<open>a / b\<close> on two Python integers (correctly rounded), and a float times a small integer
  (the integer converts to a float exactly, and the product is rounded once).
\<close>

definition truediv :: "int \<Rightarrow> int \<Rightarrow> float64" where
  "truediv a b = nearest64 a b"

definition fmul_int :: "float64 \<Rightarrow> int \<Rightarrow> float64" where
  "fmul_int x n = nearest64 (fst x * n) (snd x)"

definition float_value :: "float64 \<Rightarrow> real" where
  "float_value x = real_of_int (fst x) / real_of_int (snd x)"

text \<open>
  The derived queries.  \<open>porcentaje_lleno\<close> is
  \<^verbatim>\<open>(self.nivel_actual / self.capacidad_total) * 100\<close> in binary64; its result and the
  thresholds it is compared with are given as the reals they denote.
\<close>

definition porcentaje_lleno :: "Cisterna \<Rightarrow> real" where
  "porcentaje_lleno self =
     (if c_capacidad_total self = 0 then 0
      else float_value (fmul_int (truediv (c_nivel_actual self) (c_capacidad_total self)) 100))"

definition esta_vacia :: "Cisterna \<Rightarrow> bool" where
  "esta_vacia self = (c_nivel_actual self = 0)"

definition nivel_critico :: "real \<Rightarrow> Cisterna \<Rightarrow> bool" where
  "nivel_critico porcentaje_critico self = (porcentaje_lleno self \<le> porcentaje_critico)"

definition nivel_bajo :: "real \<Rightarrow> Cisterna \<Rightarrow> bool" where
  "nivel_bajo porcentaje_bajo self = (porcentaje_lleno self \<le> porcentaje_bajo)"

definition es_prioritaria :: "Cisterna \<Rightarrow> bool" where
  "es_prioritaria self = (c_tipo self \<in> {ESCOLAR, CENTRO_SALUD})"

text \<open>The enumeration values, and \<open>TipoCisterna(value)\<close> (\<open>None\<close> where Python raises).\<close>

fun EstadoCisterna_value :: "EstadoCisterna \<Rightarrow> string" where
  "EstadoCisterna_value OPERATIVA = ''operativa''"
| "EstadoCisterna_value DANADA = ''da'' @ [CHR 0xF1] @ ''ada''"
| "EstadoCisterna_value EN_MANTENIMIENTO = ''en_mantenimiento''"
| "EstadoCisterna_value INACTIVA = ''inactiva''"

definition TipoCisterna_of_value :: "string \<Rightarrow> TipoCisterna option" where
  "TipoCisterna_of_value s =
     (if s = ''familiar'' then Some FAMILIAR
      else if s = ''comunitaria'' then Some COMUNITARIA
      else if s = ''escolar'' then Some ESCOLAR
      else if s = ''centro_salud'' then Some CENTRO_SALUD
      else None)"

section \<open>Entity Familia (domain/entities/familia.py)\<close>

record Familia =
  f_direccion :: string
  f_num_personas :: int
  f_contacto :: string
  f_capacidad_almacenamiento :: int
  f_tiene_cisterna :: bool
  f_zona :: string
  f_consumo_promedio_diario :: "real option"
  f_id :: "string option"
  f_fecha_registro :: "datetime option"
  f_activo :: bool

definition calcular_consumo_estimado :: "Familia \<Rightarrow> real" where
  "calcular_consumo_estimado self = real_of_int (f_num_personas self * 50)"

definition Familia_post_init :: "datetime \<Rightarrow> Familia \<Rightarrow> error + Familia" where
  "Familia_post_init now self =
     (if vacio (f_direccion self) then Inl (ValueError Direccion_vacia)
      else if f_num_personas self \<le> 0 then Inl (ValueError Num_personas_no_positivo)
      else if f_capacidad_almacenamiento self \<le> 0
        then Inl (ValueError Capacidad_almacenamiento_no_positiva)
      else if vacio (f_contacto self) then Inl (ValueError Contacto_vacio)
      else Inr (self\<lparr>f_direccion := strip (f_direccion self),
                      f_contacto := strip (f_contacto self),
                      f_zona := strip (f_zona self),
                      f_fecha_registro :=
                        (case f_fecha_registro self of None \<Rightarrow> Some now | Some d \<Rightarrow> Some d),
                      f_consumo_promedio_diario :=
                        (case f_consumo_promedio_diario self of
                           None \<Rightarrow> Some (calcular_consumo_estimado self)
                         | Some v \<Rightarrow> Some v)\<rparr>))"

section \<open>Entity Llenado (domain/entities/llenado.py)\<close>

record Llenado =
  l_cisterna_id :: string
  l_litros_suministrados :: int
  l_costo :: real
  l_proveedor :: string
  l_nivel_anterior :: int
  l_nivel_posterior :: int
  l_fecha :: "datetime option"
  l_observaciones :: "string option"
  l_id :: "string option"

text \<open>
  \<^verbatim>\<open>if self.observaciones:\<close> holds for a string that is present and not empty.
\<close>

definition strip_opt :: "string option \<Rightarrow> string option" where
  "strip_opt v = (case v of None \<Rightarrow> None | Some s \<Rightarrow> (if s = [] then Some s else Some (strip s)))"

definition Llenado_post_init :: "datetime \<Rightarrow> Llenado \<Rightarrow> error + Llenado" where
  "Llenado_post_init now self =
     (if vacio (l_cisterna_id self) then Inl (ValueError Cisterna_id_vacio)
      else if l_litros_suministrados self \<le> 0 then Inl (ValueError Litros_no_positivos)
      else if l_costo self < 0 then Inl (ValueError Costo_negativo)
      else if vacio (l_proveedor self) then Inl (ValueError Proveedor_vacio)
      else if l_nivel_anterior self < 0 then Inl (ValueError Nivel_anterior_negativo)
      else if l_nivel_posterior self < l_nivel_anterior self
        then Inl (ValueError Nivel_posterior_menor)
      else Inr (self\<lparr>l_proveedor := strip (l_proveedor self),
                      l_observaciones := strip_opt (l_observaciones self),
                      l_fecha := (case l_fecha self of None \<Rightarrow> Some now | Some d \<Rightarrow> Some d)\<rparr>))"

section \<open>Entity Reporte (domain/entities/reporte.py)\<close>

datatype TipoReporte =
  AGUA_ACABANDOSE | AGUA_CONTAMINADA | CISTERNA_DANADA | FUGA_AGUA | SOLICITUD_LLENADO | OTRO

datatype Urgencia = BAJA | MEDIA | ALTA | CRITICA

datatype EstadoReporte = PENDIENTE | EN_REVISION | EN_PROCESO | RESUELTO | CERRADO

definition TipoReporte_of_value :: "string \<Rightarrow> TipoReporte option" where
  "TipoReporte_of_value s =
     (if s = ''agua_acabandose'' then Some AGUA_ACABANDOSE
      else if s = ''agua_contaminada'' then Some AGUA_CONTAMINADA
      else if s = ''cisterna_da'' @ [CHR 0xF1] @ ''ada'' then Some CISTERNA_DANADA
      else if s = ''fuga_agua'' then Some FUGA_AGUA
      else if s = ''solicitud_llenado'' then Some SOLICITUD_LLENADO
      else if s = ''otro'' then Some OTRO
      else None)"

definition Urgencia_of_value :: "string \<Rightarrow> Urgencia option" where
  "Urgencia_of_value s =
     (if s = ''baja'' then Some BAJA
      else if s = ''media'' then Some MEDIA
      else if s = ''alta'' then Some ALTA
      else if s = ''critica'' then Some CRITICA
      else None)"

record Reporte =
  r_familia_id :: string
  r_tipo :: TipoReporte
  r_descripcion :: string
  r_urgencia :: Urgencia
  r_estado :: EstadoReporte
  r_cisterna_id :: "string option"
  r_latitud :: "real option"
  r_longitud :: "real option"
  r_fecha_reporte :: "datetime option"
  r_fecha_resolucion :: "datetime option"
  r_observaciones_resolucion :: "string option"
  r_id :: "string option"

definition Reporte_post_init :: "datetime \<Rightarrow> Reporte \<Rightarrow> error + Reporte" where
  "Reporte_post_init now self =
     (if vacio (r_familia_id self) then Inl (ValueError Familia_id_vacio)
      else if vacio (r_descripcion self) then Inl (ValueError Descripcion_vacia)
      else Inr (self\<lparr>r_descripcion := strip (r_descripcion self),
                      r_observaciones_resolucion := strip_opt (r_observaciones_resolucion self),
                      r_fecha_reporte :=
                        (case r_fecha_reporte self of None \<Rightarrow> Some now | Some d \<Rightarrow> Some d)\<rparr>))"

text \<open>
  \<open>cambiar_estado\<close> and \<open>resolver\<close>.  The \<open>isinstance\<close> check of \<open>cambiar_estado\<close> is the
  argument's type here, so neither method has a failing branch.
\<close>

definition cambiar_estado :: "datetime \<Rightarrow> EstadoReporte \<Rightarrow> Reporte \<Rightarrow> Reporte" where
  "cambiar_estado now nuevo_estado self =
     (let self1 = self\<lparr>r_estado := nuevo_estado\<rparr>
      in if nuevo_estado \<in> {RESUELTO, CERRADO}
         then (if r_fecha_resolucion self1 = None
               then self1\<lparr>r_fecha_resolucion := Some now\<rparr>
               else self1)
         else self1)"

definition resolver :: "datetime \<Rightarrow> string \<Rightarrow> Reporte \<Rightarrow> Reporte" where
  "resolver now observaciones self =
     (let self1 = self\<lparr>r_estado := RESUELTO\<rparr>;
          self2 = self1\<lparr>r_fecha_resolucion := Some now\<rparr>
      in if observaciones \<noteq> []
         then self2\<lparr>r_observaciones_resolucion := Some (strip observaciones)\<rparr>
         else self2)"

definition es_urgente :: "Reporte \<Rightarrow> bool" where
  "es_urgente self = (r_urgencia self \<in> {ALTA, CRITICA})"

definition esta_resuelto :: "Reporte \<Rightarrow> bool" where
  "esta_resuelto self = (r_estado self \<in> {RESUELTO, CERRADO})"

section \<open>The document store (infrastructure/repositories)\<close>

text \<open>
  A MongoDB collection is a list of documents in insertion order, each with its \<open>_id\<close>.
  A document is modelled by the entity record that \<open>to_dict\<close> copies field by field; the
  record's own id field is \<open>None\<close> in a stored document, since the repositories pop \<open>_id\<close>
  before writing, and the key of the pair is the \<open>_id\<close> as \<open>str\<close> prints it.

  The driver's \<open>ObjectId\<close> is not part of the repository.  It is modelled by its contract
  on strings: 24 hexadecimal digits are accepted and compared without regard to letter
  case, anything else raises \<open>InvalidId\<close>.
\<close>

definition hexdigit :: "char \<Rightarrow> bool" where
  "hexdigit c = (c \<in> set ''0123456789abcdefABCDEF'')"

definition lower_hex :: "char \<Rightarrow> char" where
  "lower_hex c =
     (if c = CHR ''A'' then CHR ''a'' else if c = CHR ''B'' then CHR ''b''
      else if c = CHR ''C'' then CHR ''c'' else if c = CHR ''D'' then CHR ''d''
      else if c = CHR ''E'' then CHR ''e'' else if c = CHR ''F'' then CHR ''f'' else c)"

definition ObjectId :: "string \<Rightarrow> error + string" where
  "ObjectId s =
     (if length s = 24 \<and> list_all hexdigit s then Inr (map lower_hex s) else Inl (InvalidId s))"

type_synonym 'a collection = "(string \<times> 'a) list"

definition find_by_id :: "string \<Rightarrow> 'a collection \<Rightarrow> (string \<times> 'a) option" where
  "find_by_id k col = List.find (\<lambda>p. fst p = k) col"

definition find_one :: "('a \<Rightarrow> bool) \<Rightarrow> 'a collection \<Rightarrow> (string \<times> 'a) option" where
  "find_one q col = List.find (\<lambda>p. q (snd p)) col"

definition find_all :: "('a \<Rightarrow> bool) \<Rightarrow> 'a collection \<Rightarrow> 'a collection" where
  "find_all q col = filter (\<lambda>p. q (snd p)) col"

definition count_documents :: "('a \<Rightarrow> bool) \<Rightarrow> 'a collection \<Rightarrow> nat" where
  "count_documents q col = length (filter (\<lambda>p. q (snd p)) col)"

definition insert_one :: "string \<Rightarrow> 'a \<Rightarrow> 'a collection \<Rightarrow> 'a collection" where
  "insert_one k d col = col @ [(k, d)]"

text \<open>
  \<open>update_one\<close> with a \<open>$set\<close> of every field: the first document with the key is
  replaced, and nothing changes when no document has it.
\<close>

fun update_one :: "string \<Rightarrow> 'a \<Rightarrow> 'a collection \<Rightarrow> 'a collection" where
  "update_one k d [] = []"
| "update_one k d (p # ps) = (if fst p = k then (k, d) # ps else p # update_one k d ps)"

record db =
  familias :: "Familia collection"
  cisternas :: "Cisterna collection"
  llenados :: "Llenado collection"
  reportes :: "Reporte collection"

text \<open>Sequencing of calls that may raise, and a list comprehension over such a call.\<close>

definition bind_err :: "error + 'a \<Rightarrow> ('a \<Rightarrow> error + 'b) \<Rightarrow> error + 'b" where
  "bind_err m f = (case m of Inl e \<Rightarrow> Inl e | Inr x \<Rightarrow> f x)"

fun traverse :: "('a \<Rightarrow> error + 'b) \<Rightarrow> 'a list \<Rightarrow> error + 'b list" where
  "traverse f [] = Inr []"
| "traverse f (x # xs) =
     (case f x of
        Inl e \<Rightarrow> Inl e
      | Inr y \<Rightarrow> (case traverse f xs of Inl e \<Rightarrow> Inl e | Inr ys \<Rightarrow> Inr (y # ys)))"

text \<open>
  The BSON encoder stores a Python integer in at most 64 bits and raises \<open>OverflowError\<close>
  for any other.  The inserts check the integers of the document they write, and so does
  the tank update, whose level is newly computed.  The household update of
  \<open>RegistrarCisterna\<close> writes back the integers and the contact it has just read from the
  stored document, so neither the encoder nor the unique index on \<open>contacto\<close>
  (\<open>mongodb_connection.py\<close>) is consulted for it.
\<close>

definition bson_int :: "int \<Rightarrow> bool" where
  "bson_int n = (- (2 ^ 63) \<le> n \<and> n < 2 ^ 63)"

text \<open>\<^verbatim>\<open>if not entity.id\<close>: the id is absent or the empty string.\<close>

definition sin_id :: "string option \<Rightarrow> bool" where
  "sin_id i = (case i of None \<Rightarrow> True | Some s \<Rightarrow> s = [])"

subsection \<open>MongoDBFamiliaRepository\<close>

definition Familia_from_dict :: "datetime \<Rightarrow> string \<times> Familia \<Rightarrow> error + Familia" where
  "Familia_from_dict now doc = Familia_post_init now ((snd doc)\<lparr>f_id := Some (fst doc)\<rparr>)"

definition Familia_to_dict :: "Familia \<Rightarrow> Familia" where
  "Familia_to_dict familia = familia\<lparr>f_id := None\<rparr>"

text \<open>
  \<open>guardar\<close>: the document is encoded, then the server checks the unique index on
  \<open>contacto\<close> and inserts.  The consumption figure is a real in the model; when the
  constructor has computed it, the source holds the integer \<open>50 * num_personas\<close>, whose
  range check by the encoder is left out.
\<close>

definition familia_guardar :: "string \<Rightarrow> Familia \<Rightarrow> db \<Rightarrow> (error + Familia) \<times> db" where
  "familia_guardar inserted_id familia st =
     (if \<not> (bson_int (f_num_personas familia) \<and> bson_int (f_capacidad_almacenamiento familia))
      then (Inl OverflowError, st)
      else if find_one (\<lambda>d. f_contacto d = f_contacto familia) (familias st) \<noteq> None
      then (Inl DuplicateKeyError, st)
      else (Inr (familia\<lparr>f_id := Some inserted_id\<rparr>),
            st\<lparr>familias := insert_one inserted_id (Familia_to_dict familia) (familias st)\<rparr>))"

definition familia_actualizar :: "Familia \<Rightarrow> db \<Rightarrow> (error + Familia) \<times> db" where
  "familia_actualizar familia st =
     (if sin_id (f_id familia) then (Inl (ValueError Familia_sin_id), st)
      else case ObjectId (the (f_id familia)) of
             Inl e \<Rightarrow> (Inl e, st)
           | Inr k \<Rightarrow>
               (Inr familia,
                st\<lparr>familias := update_one k (Familia_to_dict familia) (familias st)\<rparr>))"

definition familia_obtener_por_id :: "datetime \<Rightarrow> db \<Rightarrow> string \<Rightarrow> error + Familia option" where
  "familia_obtener_por_id now st familia_id =
     bind_err (ObjectId familia_id) (\<lambda>k.
       case find_by_id k (familias st) of
         None \<Rightarrow> Inr None
       | Some doc \<Rightarrow> bind_err (Familia_from_dict now doc) (\<lambda>f. Inr (Some f)))"

definition familia_buscar_por_contacto :: "datetime \<Rightarrow> db \<Rightarrow> string \<Rightarrow> error + Familia option" where
  "familia_buscar_por_contacto now st contacto =
     (case find_one (\<lambda>d. f_contacto d = contacto) (familias st) of
        None \<Rightarrow> Inr None
      | Some doc \<Rightarrow> bind_err (Familia_from_dict now doc) (\<lambda>f. Inr (Some f)))"

text \<open>
  The listing queries.  The cursor's sort order is left out: the callers modelled here
  take only the length of the lists.
\<close>

definition familia_obtener_activas :: "datetime \<Rightarrow> db \<Rightarrow> error + Familia list" where
  "familia_obtener_activas now st =
     traverse (Familia_from_dict now) (find_all (\<lambda>d. f_activo d) (familias st))"

definition familia_obtener_con_cisterna :: "datetime \<Rightarrow> db \<Rightarrow> error + Familia list" where
  "familia_obtener_con_cisterna now st =
     traverse (Familia_from_dict now) (find_all (\<lambda>d. f_tiene_cisterna d) (familias st))"

definition familia_obtener_sin_cisterna :: "datetime \<Rightarrow> db \<Rightarrow> error + Familia list" where
  "familia_obtener_sin_cisterna now st =
     traverse (Familia_from_dict now) (find_all (\<lambda>d. \<not> f_tiene_cisterna d) (familias st))"

definition contar_familias :: "db \<Rightarrow> nat" where
  "contar_familias st = count_documents (\<lambda>d. True) (familias st)"

subsection \<open>MongoDBCisternaRepository\<close>

definition Cisterna_from_dict :: "datetime \<Rightarrow> string \<times> Cisterna \<Rightarrow> error + Cisterna" where
  "Cisterna_from_dict now doc = Cisterna_post_init now ((snd doc)\<lparr>c_id := Some (fst doc)\<rparr>)"

definition Cisterna_to_dict :: "Cisterna \<Rightarrow> Cisterna" where
  "Cisterna_to_dict cisterna = cisterna\<lparr>c_id := None\<rparr>"

definition cisterna_guardar :: "string \<Rightarrow> Cisterna \<Rightarrow> db \<Rightarrow> (error + Cisterna) \<times> db" where
  "cisterna_guardar inserted_id cisterna st =
     (if \<not> (bson_int (c_capacidad_total cisterna) \<and> bson_int (c_nivel_actual cisterna))
      then (Inl OverflowError, st)
      else (Inr (cisterna\<lparr>c_id := Some inserted_id\<rparr>),
            st\<lparr>cisternas := insert_one inserted_id (Cisterna_to_dict cisterna) (cisternas st)\<rparr>))"

definition cisterna_actualizar :: "Cisterna \<Rightarrow> db \<Rightarrow> (error + Cisterna) \<times> db" where
  "cisterna_actualizar cisterna st =
     (if sin_id (c_id cisterna) then (Inl (ValueError Cisterna_sin_id), st)
      else case ObjectId (the (c_id cisterna)) of
             Inl e \<Rightarrow> (Inl e, st)
           | Inr k \<Rightarrow>
               (if \<not> (bson_int (c_capacidad_total cisterna) \<and> bson_int (c_nivel_actual cisterna))
                then (Inl OverflowError, st)
                else (Inr cisterna,
                      st\<lparr>cisternas :=
                           update_one k (Cisterna_to_dict cisterna) (cisternas st)\<rparr>)))"

definition cisterna_obtener_por_id :: "datetime \<Rightarrow> db \<Rightarrow> string \<Rightarrow> error + Cisterna option" where
  "cisterna_obtener_por_id now st cisterna_id =
     bind_err (ObjectId cisterna_id) (\<lambda>k.
       case find_by_id k (cisternas st) of
         None \<Rightarrow> Inr None
       | Some doc \<Rightarrow> bind_err (Cisterna_from_dict now doc) (\<lambda>c. Inr (Some c)))"

definition cisterna_obtener_operativas :: "datetime \<Rightarrow> db \<Rightarrow> error + Cisterna list" where
  "cisterna_obtener_operativas now st =
     traverse (Cisterna_from_dict now) (find_all (\<lambda>d. c_estado d = OPERATIVA) (cisternas st))"

definition obtener_con_nivel_critico :: "datetime \<Rightarrow> db \<Rightarrow> real \<Rightarrow> error + Cisterna list" where
  "obtener_con_nivel_critico now st porcentaje =
     bind_err (traverse (Cisterna_from_dict now)
                 (find_all (\<lambda>d. c_estado d = OPERATIVA) (cisternas st)))
       (\<lambda>cs. Inr (filter (nivel_critico porcentaje) cs))"

definition obtener_con_nivel_bajo :: "datetime \<Rightarrow> db \<Rightarrow> real \<Rightarrow> error + Cisterna list" where
  "obtener_con_nivel_bajo now st porcentaje =
     bind_err (traverse (Cisterna_from_dict now)
                 (find_all (\<lambda>d. c_estado d = OPERATIVA) (cisternas st)))
       (\<lambda>cs. Inr (filter (nivel_bajo porcentaje) cs))"

definition obtener_vacias :: "datetime \<Rightarrow> db \<Rightarrow> error + Cisterna list" where
  "obtener_vacias now st =
     traverse (Cisterna_from_dict now) (find_all (\<lambda>d. c_nivel_actual d = 0) (cisternas st))"

definition obtener_prioritarias :: "datetime \<Rightarrow> db \<Rightarrow> error + Cisterna list" where
  "obtener_prioritarias now st =
     traverse (Cisterna_from_dict now)
       (find_all (\<lambda>d. c_tipo d \<in> {ESCOLAR, CENTRO_SALUD}) (cisternas st))"

definition contar_cisternas :: "db \<Rightarrow> nat" where
  "contar_cisternas st = count_documents (\<lambda>d. True) (cisternas st)"

definition calcular_capacidad_total :: "db \<Rightarrow> int" where
  "calcular_capacidad_total st = sum_list (map (\<lambda>p. c_capacidad_total (snd p)) (cisternas st))"

definition calcular_nivel_total :: "db \<Rightarrow> int" where
  "calcular_nivel_total st = sum_list (map (\<lambda>p. c_nivel_actual (snd p)) (cisternas st))"

subsection \<open>MongoDBLlenadoRepository\<close>

definition Llenado_to_dict :: "Llenado \<Rightarrow> Llenado" where
  "Llenado_to_dict llenado = llenado\<lparr>l_id := None\<rparr>"

definition llenado_guardar :: "string \<Rightarrow> Llenado \<Rightarrow> db \<Rightarrow> (error + Llenado) \<times> db" where
  "llenado_guardar inserted_id llenado st =
     (if \<not> (bson_int (l_litros_suministrados llenado) \<and> bson_int (l_nivel_anterior llenado)
             \<and> bson_int (l_nivel_posterior llenado))
      then (Inl OverflowError, st)
      else (Inr (llenado\<lparr>l_id := Some inserted_id\<rparr>),
            st\<lparr>llenados := insert_one inserted_id (Llenado_to_dict llenado) (llenados st)\<rparr>))"

definition contar_llenados :: "db \<Rightarrow> nat" where
  "contar_llenados st = count_documents (\<lambda>d. True) (llenados st)"

definition calcular_total_litros :: "db \<Rightarrow> int" where
  "calcular_total_litros st = sum_list (map (\<lambda>p. l_litros_suministrados (snd p)) (llenados st))"

subsection \<open>MongoDBReporteRepository\<close>

definition Reporte_to_dict :: "Reporte \<Rightarrow> Reporte" where
  "Reporte_to_dict reporte = reporte\<lparr>r_id := None\<rparr>"

text \<open>A report document holds no integer, so its insert has nothing to reject.\<close>

definition reporte_guardar :: "string \<Rightarrow> Reporte \<Rightarrow> db \<Rightarrow> Reporte \<times> db" where
  "reporte_guardar inserted_id reporte st =
     (reporte\<lparr>r_id := Some inserted_id\<rparr>,
      st\<lparr>reportes := insert_one inserted_id (Reporte_to_dict reporte) (reportes st)\<rparr>)"

definition contar_reportes :: "db \<Rightarrow> nat" where
  "contar_reportes st = count_documents (\<lambda>d. True) (reportes st)"

definition contar_por_estado :: "db \<Rightarrow> EstadoReporte \<Rightarrow> nat" where
  "contar_por_estado st estado = count_documents (\<lambda>d. r_estado d = estado) (reportes st)"

definition contar_urgentes :: "db \<Rightarrow> nat" where
  "contar_urgentes st =
     count_documents (\<lambda>d. r_urgencia d \<in> {ALTA, CRITICA} \<and> r_estado d \<in> {PENDIENTE, EN_REVISION})
       (reportes st)"

section \<open>Use cases (application/use_cases)\<close>

text \<open>
  A use case takes the clock reading, the \<open>_id\<close> the driver will give to an inserted
  document, the store and its arguments, and returns the outcome together with the store
  as the call leaves it: writes made before an exception stay in the store.
\<close>

subsection \<open>RegistrarFamilia\<close>

definition RegistrarFamilia_ejecutar ::
  "datetime \<Rightarrow> string \<Rightarrow> db \<Rightarrow> string \<Rightarrow> int \<Rightarrow> string \<Rightarrow> int \<Rightarrow> bool \<Rightarrow> string \<Rightarrow> real option
     \<Rightarrow> (error + Familia) \<times> db" where
  "RegistrarFamilia_ejecutar now inserted_id st direccion num_personas contacto
       capacidad_almacenamiento tiene_cisterna zona consumo_promedio_diario =
     (case familia_buscar_por_contacto now st contacto of
        Inl e \<Rightarrow> (Inl e, st)
      | Inr (Some familia_existente) \<Rightarrow> (Inl (ValueError (Contacto_ya_existe contacto)), st)
      | Inr None \<Rightarrow>
          (case Familia_post_init now
                  \<lparr>f_direccion = direccion, f_num_personas = num_personas,
                   f_contacto = contacto,
                   f_capacidad_almacenamiento = capacidad_almacenamiento,
                   f_tiene_cisterna = tiene_cisterna, f_zona = zona,
                   f_consumo_promedio_diario = consumo_promedio_diario,
                   f_id = None, f_fecha_registro = None, f_activo = True\<rparr> of
             Inl e \<Rightarrow> (Inl e, st)
           | Inr familia \<Rightarrow> familia_guardar inserted_id familia st))"

subsection \<open>RegistrarCisterna\<close>

text \<open>
  Step 2 of \<open>RegistrarCisterna.ejecutar\<close>: for a family tank with a household reference,
  the household is looked up, and its \<open>tiene_cisterna\<close> flag is set and written back when
  it was false.
\<close>

definition marcar_familia_con_cisterna ::
  "datetime \<Rightarrow> db \<Rightarrow> TipoCisterna \<Rightarrow> string option \<Rightarrow> (error + unit) \<times> db" where
  "marcar_familia_con_cisterna now st tipo_cisterna familia_id =
     (if tipo_cisterna = FAMILIAR \<and> \<not> sin_id familia_id then
        (case familia_obtener_por_id now st (the familia_id) of
           Inl e \<Rightarrow> (Inl e, st)
         | Inr None \<Rightarrow> (Inl (ValueError (Familia_no_encontrada (the familia_id))), st)
         | Inr (Some familia) \<Rightarrow>
             (if \<not> f_tiene_cisterna familia then
                (case familia_actualizar (familia\<lparr>f_tiene_cisterna := True\<rparr>) st of
                   (Inl e, st1) \<Rightarrow> (Inl e, st1)
                 | (Inr actualizada, st1) \<Rightarrow> (Inr (), st1))
              else (Inr (), st)))
      else (Inr (), st))"

definition RegistrarCisterna_ejecutar ::
  "datetime \<Rightarrow> string \<Rightarrow> db \<Rightarrow> string \<Rightarrow> string \<Rightarrow> int \<Rightarrow> int \<Rightarrow> real option \<Rightarrow> real option
     \<Rightarrow> string option \<Rightarrow> (error + Cisterna) \<times> db" where
  "RegistrarCisterna_ejecutar now inserted_id st ubicacion tipo capacidad_total nivel_actual
       latitud longitud familia_id =
     (case TipoCisterna_of_value tipo of
        None \<Rightarrow> (Inl (ValueError (Tipo_cisterna_invalido tipo)), st)
      | Some tipo_cisterna \<Rightarrow>
          (case marcar_familia_con_cisterna now st tipo_cisterna familia_id of
             (Inl e, st1) \<Rightarrow> (Inl e, st1)
           | (Inr u, st1) \<Rightarrow>
               (case Cisterna_post_init now
                       \<lparr>c_ubicacion = ubicacion, c_tipo = tipo_cisterna,
                        c_capacidad_total = capacidad_total, c_nivel_actual = nivel_actual,
                        c_latitud = latitud, c_longitud = longitud,
                        c_familia_id = familia_id, c_estado = OPERATIVA, c_id = None,
                        c_fecha_instalacion = None, c_ultima_actualizacion = None\<rparr> of
                  Inl e \<Rightarrow> (Inl e, st1)
                | Inr cisterna \<Rightarrow> cisterna_guardar inserted_id cisterna st1)))"

subsection \<open>RegistrarLlenado\<close>

definition RegistrarLlenado_ejecutar ::
  "datetime \<Rightarrow> string \<Rightarrow> db \<Rightarrow> string \<Rightarrow> int \<Rightarrow> real \<Rightarrow> string \<Rightarrow> string option
     \<Rightarrow> (error + Llenado) \<times> db" where
  "RegistrarLlenado_ejecutar now inserted_id st cisterna_id litros_suministrados costo proveedor
       observaciones =
     (case cisterna_obtener_por_id now st cisterna_id of
        Inl e \<Rightarrow> (Inl e, st)
      | Inr None \<Rightarrow> (Inl (ValueError (Cisterna_no_encontrada cisterna_id)), st)
      | Inr (Some cisterna) \<Rightarrow>
          (if \<not> (EstadoCisterna_value (c_estado cisterna) = ''operativa'')
           then (Inl (ValueError (Cisterna_no_operativa (c_estado cisterna))), st)
           else
             (let nivel_anterior = c_nivel_actual cisterna
              in case llenar now litros_suministrados cisterna of
                   (Inl e, cisterna1) \<Rightarrow> (Inl e, st)
                 | (Inr u, cisterna1) \<Rightarrow>
                     (let nivel_posterior = c_nivel_actual cisterna1
                      in case Llenado_post_init now
                                \<lparr>l_cisterna_id = cisterna_id,
                                 l_litros_suministrados = litros_suministrados,
                                 l_costo = costo, l_proveedor = proveedor,
                                 l_nivel_anterior = nivel_anterior,
                                 l_nivel_posterior = nivel_posterior,
                                 l_fecha = None, l_observaciones = observaciones,
                                 l_id = None\<rparr> of
                           Inl e \<Rightarrow> (Inl e, st)
                         | Inr llenado \<Rightarrow>
                             (case llenado_guardar inserted_id llenado st of
                                (Inl e, st1) \<Rightarrow> (Inl e, st1)
                              | (Inr llenado_guardado, st1) \<Rightarrow>
                                  (case cisterna_actualizar cisterna1 st1 of
                                     (Inl e, st2) \<Rightarrow> (Inl e, st2)
                                   | (Inr actualizada, st2) \<Rightarrow>
                                       (Inr llenado_guardado, st2)))))))"

subsection \<open>CrearReporte\<close>

definition ajustar_urgencia :: "TipoReporte \<Rightarrow> Urgencia \<Rightarrow> Urgencia" where
  "ajustar_urgencia tipo_reporte nivel_urgencia =
     (if tipo_reporte = AGUA_ACABANDOSE
      then (if nivel_urgencia = BAJA then MEDIA else nivel_urgencia)
      else nivel_urgencia)"

definition validar_cisterna_id :: "datetime \<Rightarrow> db \<Rightarrow> string option \<Rightarrow> error + unit" where
  "validar_cisterna_id now st cisterna_id =
     (if \<not> sin_id cisterna_id then
        (case cisterna_obtener_por_id now st (the cisterna_id) of
           Inl e \<Rightarrow> Inl e
         | Inr None \<Rightarrow> Inl (ValueError (Cisterna_no_encontrada (the cisterna_id)))
         | Inr (Some cisterna) \<Rightarrow> Inr ())
      else Inr ())"

definition CrearReporte_ejecutar ::
  "datetime \<Rightarrow> string \<Rightarrow> db \<Rightarrow> string \<Rightarrow> string \<Rightarrow> string \<Rightarrow> string \<Rightarrow> string option
     \<Rightarrow> real option \<Rightarrow> real option \<Rightarrow> (error + Reporte) \<times> db" where
  "CrearReporte_ejecutar now inserted_id st familia_id tipo descripcion urgencia cisterna_id
       latitud longitud =
     (case familia_obtener_por_id now st familia_id of
        Inl e \<Rightarrow> (Inl e, st)
      | Inr None \<Rightarrow> (Inl (ValueError (Familia_no_encontrada familia_id)), st)
      | Inr (Some familia) \<Rightarrow>
          (case TipoReporte_of_value tipo of
             None \<Rightarrow> (Inl (ValueError (Tipo_reporte_invalido tipo)), st)
           | Some tipo_reporte \<Rightarrow>
               (case Urgencia_of_value urgencia of
                  None \<Rightarrow> (Inl (ValueError (Urgencia_invalida urgencia)), st)
                | Some nivel_urgencia \<Rightarrow>
                    (case validar_cisterna_id now st cisterna_id of
                       Inl e \<Rightarrow> (Inl e, st)
                     | Inr u \<Rightarrow>
                         (case Reporte_post_init now
                                 \<lparr>r_familia_id = familia_id, r_tipo = tipo_reporte,
                                  r_descripcion = descripcion,
                                  r_urgencia = ajustar_urgencia tipo_reporte nivel_urgencia,
                                  r_estado = PENDIENTE, r_cisterna_id = cisterna_id,
                                  r_latitud = latitud, r_longitud = longitud,
                                  r_fecha_reporte = None, r_fecha_resolucion = None,
                                  r_observaciones_resolucion = None, r_id = None\<rparr> of
                            Inl e \<Rightarrow> (Inl e, st)
                          | Inr reporte \<Rightarrow>
                              (let (reporte_guardado, st1) = reporte_guardar inserted_id reporte st
                               in (Inr reporte_guardado, st1)))))))"

subsection \<open>ObtenerDashboard\<close>

text \<open>\<open>str(n)\<close> for a count, as the f-strings of the alert messages print it.\<close>

fun str_nat :: "nat \<Rightarrow> string" where
  "str_nat n =
     (if n < 10 then [char_of (48 + n)]
      else str_nat (n div 10) @ [char_of (48 + n mod 10)])"

declare str_nat.simps [simp del]

record alerta =
  a_tipo :: string
  a_mensaje :: string
  a_cantidad :: nat

definition alerta_vacias :: "nat \<Rightarrow> alerta" where
  "alerta_vacias n =
     \<lparr>a_tipo = ''critico'',
      a_mensaje = str_nat n @ '' cisterna(s) vac'' @ [CHR 0xED] @ ''a(s)'',
      a_cantidad = n\<rparr>"

definition alerta_nivel_critico :: "nat \<Rightarrow> alerta" where
  "alerta_nivel_critico n =
     \<lparr>a_tipo = ''urgente'',
      a_mensaje = str_nat n @ '' cisterna(s) con nivel cr'' @ [CHR 0xED] @ ''tico'',
      a_cantidad = n\<rparr>"

definition alerta_reportes_urgentes :: "nat \<Rightarrow> alerta" where
  "alerta_reportes_urgentes n =
     \<lparr>a_tipo = ''urgente'',
      a_mensaje = str_nat n @ '' reporte(s) urgente(s) pendiente(s)'',
      a_cantidad = n\<rparr>"

definition alerta_nivel_bajo :: "nat \<Rightarrow> alerta" where
  "alerta_nivel_bajo n =
     \<lparr>a_tipo = ''advertencia'',
      a_mensaje = str_nat n @ '' cisterna(s) con nivel bajo'',
      a_cantidad = n\<rparr>"

text \<open>The four \<open>if count > 0: alertas.append(...)\<close> statements, in the order of the source.\<close>

definition alertas_de :: "nat \<Rightarrow> nat \<Rightarrow> nat \<Rightarrow> nat \<Rightarrow> alerta list" where
  "alertas_de cisternas_vacias cisternas_nivel_critico reportes_urgentes cisternas_nivel_bajo =
     (let alertas0 = [];
          alertas1 = (if cisternas_vacias > 0
                      then alertas0 @ [alerta_vacias cisternas_vacias] else alertas0);
          alertas2 = (if cisternas_nivel_critico > 0
                      then alertas1 @ [alerta_nivel_critico cisternas_nivel_critico]
                      else alertas1);
          alertas3 = (if reportes_urgentes > 0
                      then alertas2 @ [alerta_reportes_urgentes reportes_urgentes]
                      else alertas2);
          alertas4 = (if cisternas_nivel_bajo > 0
                      then alertas3 @ [alerta_nivel_bajo cisternas_nivel_bajo]
                      else alertas3)
      in alertas4)"

text \<open>
  The dashboard holds the counts and sums of the four sections and the alerts.  The three
  entries the source rounds to two decimals in floating point (overall fill percentage,
  total cost, average cost per litre) are left out.
\<close>

record Dashboard =
  d_familias_total :: nat
  d_familias_activas :: nat
  d_familias_con_cisterna :: nat
  d_familias_sin_cisterna :: nat
  d_cisternas_total :: nat
  d_cisternas_operativas :: nat
  d_cisternas_vacias :: nat
  d_cisternas_nivel_critico :: nat
  d_cisternas_nivel_bajo :: nat
  d_cisternas_prioritarias :: nat
  d_capacidad_total_litros :: int
  d_nivel_total_litros :: int
  d_llenados_total :: nat
  d_litros_suministrados :: int
  d_reportes_total :: nat
  d_reportes_pendientes :: nat
  d_reportes_urgentes :: nat
  d_alertas :: "alerta list"

definition ObtenerDashboard_ejecutar :: "datetime \<Rightarrow> db \<Rightarrow> error + Dashboard" where
  "ObtenerDashboard_ejecutar now st =
     (let total_familias = contar_familias st in
      bind_err (familia_obtener_activas now st) (\<lambda>activas.
      bind_err (familia_obtener_con_cisterna now st) (\<lambda>con_cisterna.
      bind_err (familia_obtener_sin_cisterna now st) (\<lambda>sin_cisterna.
      let total_cisternas = contar_cisternas st in
      bind_err (cisterna_obtener_operativas now st) (\<lambda>operativas.
      bind_err (obtener_vacias now st) (\<lambda>vacias.
      bind_err (obtener_con_nivel_critico now st 20) (\<lambda>criticas.
      bind_err (obtener_con_nivel_bajo now st 40) (\<lambda>bajas.
      bind_err (obtener_prioritarias now st) (\<lambda>prioritarias.
      let cisternas_vacias = length vacias;
          cisternas_nivel_critico = length criticas;
          cisternas_nivel_bajo = length bajas;
          reportes_urgentes = contar_urgentes st
      in Inr \<lparr>d_familias_total = total_familias,
              d_familias_activas = length activas,
              d_familias_con_cisterna = length con_cisterna,
              d_familias_sin_cisterna = length sin_cisterna,
              d_cisternas_total = total_cisternas,
              d_cisternas_operativas = length operativas,
              d_cisternas_vacias = cisternas_vacias,
              d_cisternas_nivel_critico = cisternas_nivel_critico,
              d_cisternas_nivel_bajo = cisternas_nivel_bajo,
              d_cisternas_prioritarias = length prioritarias,
              d_capacidad_total_litros = calcular_capacidad_total st,
              d_nivel_total_litros = calcular_nivel_total st,
              d_llenados_total = contar_llenados st,
              d_litros_suministrados = calcular_total_litros st,
              d_reportes_total = contar_reportes st,
              d_reportes_pendientes = contar_por_estado st PENDIENTE,
              d_reportes_urgentes = reportes_urgentes,
              d_alertas = alertas_de cisternas_vacias cisternas_nivel_critico
                            reportes_urgentes cisternas_nivel_bajo\<rparr>)))))))))"

section \<open>Concrete inputs, conditions on the store, and the alert list of the specification\<close>

text \<open>
  A concrete tank used to instantiate the theorems: 1000 litres of capacity, 800 litres
  inside, as the constructor receives it and as it leaves the constructor at clock
  reading 0.
\<close>

definition tanque_crudo :: Cisterna where
  "tanque_crudo = \<lparr>c_ubicacion = ''Plaza 1 '', c_tipo = COMUNITARIA, c_capacidad_total = 1000,
     c_nivel_actual = 800, c_latitud = None, c_longitud = None, c_familia_id = None,
     c_estado = OPERATIVA, c_id = None, c_fecha_instalacion = None,
     c_ultima_actualizacion = None\<rparr>"

definition tanque :: Cisterna where
  "tanque = \<lparr>c_ubicacion = ''Plaza 1'', c_tipo = COMUNITARIA, c_capacidad_total = 1000,
     c_nivel_actual = 800, c_latitud = None, c_longitud = None, c_familia_id = None,
     c_estado = OPERATIVA, c_id = None, c_fecha_instalacion = Some 0,
     c_ultima_actualizacion = Some 0\<rparr>"

text \<open>
  A concrete store used to instantiate the theorems of the use cases: the tank above under
  a well-formed identifier, and the identifier the driver hands out for the next insert.
\<close>

definition id_tanque :: string where "id_tanque = ''507f1f77bcf86cd799439011''"
definition id_nuevo :: string where "id_nuevo = ''507f1f77bcf86cd7994390aa''"


text \<open>
  Concrete inputs of the entity constructors and methods: a household whose zone label is
  three spaces, and a pending report.
\<close>

definition familia_zona_en_blanco :: Familia where
  "familia_zona_en_blanco =
     \<lparr>f_direccion = ''Calle 1'', f_num_personas = 4, f_contacto = ''70012345'',
      f_capacidad_almacenamiento = 1000, f_tiene_cisterna = False, f_zona = ''   '',
      f_consumo_promedio_diario = None, f_id = None, f_fecha_registro = None,
      f_activo = True\<rparr>"

definition reporte_pendiente :: Reporte where
  "reporte_pendiente =
     \<lparr>r_familia_id = ''507f1f77bcf86cd799439012'', r_tipo = FUGA_AGUA,
      r_descripcion = ''Fuga en la calle'', r_urgencia = ALTA, r_estado = PENDIENTE,
      r_cisterna_id = None, r_latitud = None, r_longitud = None,
      r_fecha_reporte = Some 1, r_fecha_resolucion = None,
      r_observaciones_resolucion = None, r_id = None\<rparr>"

text \<open>
  A store holds households (tanks) when every stored document is one that \<open>from_dict\<close>
  accepts; the repositories only ever write documents of validated entities.
\<close>

definition familias_validas :: "datetime \<Rightarrow> db \<Rightarrow> bool" where
  "familias_validas now st = list_all (\<lambda>doc. \<not> isl (Familia_from_dict now doc)) (familias st)"

definition cisternas_validas :: "datetime \<Rightarrow> db \<Rightarrow> bool" where
  "cisternas_validas now st = list_all (\<lambda>doc. \<not> isl (Cisterna_from_dict now doc)) (cisternas st)"

definition id_familia :: string where "id_familia = ''507f1f77bcf86cd799439012''"

definition familia_doc :: Familia where
  "familia_doc =
     \<lparr>f_direccion = ''Calle 1'', f_num_personas = 4, f_contacto = ''70012345'',
      f_capacidad_almacenamiento = 1000, f_tiene_cisterna = False, f_zona = ''Zona Sud'',
      f_consumo_promedio_diario = Some 200, f_id = None, f_fecha_registro = Some 0,
      f_activo = True\<rparr>"

definition almacen2 :: db where
  "almacen2 = \<lparr>familias = [(id_familia, familia_doc)], cisternas = [(id_tanque, tanque)],
                llenados = [], reportes = []\<rparr>"

text \<open>
  The alert list as the specification words it: the four candidate alerts in their fixed
  order, of which those with a positive count are kept.
\<close>

definition alertas_spec :: "nat \<Rightarrow> nat \<Rightarrow> nat \<Rightarrow> nat \<Rightarrow> alerta list" where
  "alertas_spec vacias criticas urgentes bajas =
     filter (\<lambda>a. 0 < a_cantidad a)
       [alerta_vacias vacias, alerta_nivel_critico criticas,
        alerta_reportes_urgentes urgentes, alerta_nivel_bajo bajas]"

definition almacen_vacio :: db where
  "almacen_vacio = \<lparr>familias = [], cisternas = [], llenados = [], reportes = []\<rparr>"

text \<open>
  A store with one empty operational tank, one operational tank at 30 percent, and one
  pending report of high urgency.
\<close>

definition almacen3 :: db where
  "almacen3 =
     \<lparr>familias = [(id_familia, familia_doc)],
      cisternas = [(id_tanque, tanque\<lparr>c_nivel_actual := 0\<rparr>),
                   (id_nuevo, tanque\<lparr>c_nivel_actual := 300\<rparr>)],
      llenados = [],
      reportes = [(id_familia, reporte_pendiente)]\<rparr>"

text \<open>A store with a single operational tank at 30 percent and no reports.\<close>

definition almacen4 :: db where
  "almacen4 =
     \<lparr>familias = [], cisternas = [(id_tanque, tanque\<lparr>c_nivel_actual := 300\<rparr>)],
      llenados = [], reportes = []\<rparr>"

text \<open>
  The four counts behind the alerts, read off the stored documents as the repositories
  count them: every tank whose level is 0; the operational tanks whose fill percentage is
  at most 20; the reports of urgency \<open>ALTA\<close> or \<open>CRITICA\<close> whose status is \<open>PENDIENTE\<close> or
  \<open>EN_REVISION\<close>; the operational tanks whose fill percentage is at most 40.
\<close>

definition cuenta_vacias :: "db \<Rightarrow> nat" where
  "cuenta_vacias st = length (filter (\<lambda>p. c_nivel_actual (snd p) = 0) (cisternas st))"

definition cuenta_criticas :: "db \<Rightarrow> nat" where
  "cuenta_criticas st =
     length (filter (\<lambda>p. c_estado (snd p) = OPERATIVA \<and> porcentaje_lleno (snd p) \<le> 20)
               (cisternas st))"

definition cuenta_urgentes :: "db \<Rightarrow> nat" where
  "cuenta_urgentes st =
     length (filter (\<lambda>p. r_urgencia (snd p) \<in> {ALTA, CRITICA}
                          \<and> r_estado (snd p) \<in> {PENDIENTE, EN_REVISION})
               (reportes st))"

definition cuenta_bajas :: "db \<Rightarrow> nat" where
  "cuenta_bajas st =
     length (filter (\<lambda>p. c_estado (snd p) = OPERATIVA \<and> porcentaje_lleno (snd p) \<le> 40)
               (cisternas st))"

text \<open>
  A store with a damaged tank at 10 percent and a report of high urgency that is in
  progress.
\<close>

definition tanque_danado :: Cisterna where
  "tanque_danado = tanque\<lparr>c_estado := DANADA, c_nivel_actual := 100\<rparr>"

definition reporte_en_proceso :: Reporte where
  "reporte_en_proceso = reporte_pendiente\<lparr>r_estado := EN_PROCESO\<rparr>"

definition almacen5 :: db where
  "almacen5 =
     \<lparr>familias = [], cisternas = [(id_tanque, tanque_danado)], llenados = [],
      reportes = [(id_familia, reporte_en_proceso)]\<rparr>"

text \<open>A tank of capacity \<open>10^18\<close> holding one litre more than a fifth of it.\<close>

definition tanque_enorme :: Cisterna where
  "tanque_enorme =
     tanque\<lparr>c_capacidad_total := 1000000000000000000, c_nivel_actual := 200000000000000001\<rparr>"

section \<open>Strings and identifiers\<close>

lemma dropWhile_fixed: "s = [] \<or> \<not> P (hd s) \<Longrightarrow> dropWhile P s = s"
  by (cases s) auto

lemma strip_fixed:
  assumes "s = [] \<or> (\<not> isspace (hd s) \<and> \<not> isspace (last s))"
  shows "strip s = s"
  using assms
  by (cases "s = []") (simp_all add: strip_def dropWhile_fixed hd_rev)

lemma last_dropWhile_keep:
  assumes "dropWhile P xs \<noteq> []"
  shows "last (dropWhile P xs) = last xs"
proof -
  have "xs = takeWhile P xs @ dropWhile P xs" by simp
  then have "last xs = last (takeWhile P xs @ dropWhile P xs)" by simp
  also have "\<dots> = last (dropWhile P xs)" using assms by (rule last_appendR)
  finally show ?thesis by simp
qed

lemma strip_ends:
  assumes "strip s \<noteq> []"
  shows "\<not> isspace (hd (strip s)) \<and> \<not> isspace (last (strip s))"
proof -
  define t where "t = dropWhile isspace s"
  define b where "b = dropWhile isspace (rev t)"
  have sb: "strip s = rev b" by (simp add: strip_def t_def b_def)
  with assms have b: "b \<noteq> []" by simp
  then have hb: "\<not> isspace (hd b)" unfolding b_def by (rule hd_dropWhile)
  from b have t: "t \<noteq> []" by (auto simp: b_def)
  then have ht: "\<not> isspace (hd t)" unfolding t_def by (rule hd_dropWhile)
  have "last b = last (rev t)" using b unfolding b_def by (rule last_dropWhile_keep)
  then have lb: "last b = hd t" using t by (simp add: last_rev)
  show ?thesis using b hb ht lb by (simp add: sb hd_rev last_rev)
qed

lemma strip_idem: "strip (strip s) = strip s"
  using strip_ends [of s] by (cases "strip s = []") (simp_all add: strip_fixed)

lemma strip_Nil: "strip [] = []" by (simp add: strip_def)

lemma vacio_iff: "vacio s \<longleftrightarrow> strip s = []"
  by (auto simp: vacio_def strip_Nil)

lemma vacio_strip: "vacio (strip s) = vacio s"
  by (simp add: vacio_iff strip_idem)

lemma hexdigit_not_space: "hexdigit c \<Longrightarrow> \<not> isspace c"
  by (auto simp: hexdigit_def isspace_def)

lemma hexdigit_lower: "hexdigit c \<Longrightarrow> hexdigit (lower_hex c)"
  by (auto simp: hexdigit_def lower_hex_def)

lemma lower_hex_idem: "lower_hex (lower_hex c) = lower_hex c"
  by (simp add: lower_hex_def)

lemma all_hex_fixed:
  assumes "s \<noteq> []" and "list_all hexdigit s"
  shows "strip s = s"
proof -
  have "hd s \<in> set s" and "last s \<in> set s" using assms(1) by simp_all
  then have "hexdigit (hd s)" and "hexdigit (last s)"
    using assms(2) by (simp_all add: list_all_iff)
  then show ?thesis by (simp add: strip_fixed hexdigit_not_space)
qed

lemma ObjectId_not_vacio:
  assumes "ObjectId s = Inr k"
  shows "\<not> vacio s" and "s \<noteq> []" and "k \<noteq> []" and "\<not> vacio k"
proof -
  from assms have l: "length s = 24" and h: "list_all hexdigit s" and k: "k = map lower_hex s"
    by (auto simp: ObjectId_def split: if_splits)
  from l show s: "s \<noteq> []" by auto
  with k show k': "k \<noteq> []" by simp
  from s h show "\<not> vacio s" by (simp add: vacio_iff all_hex_fixed)
  have "list_all hexdigit k" using h k by (simp add: list_all_iff hexdigit_lower)
  with k' show "\<not> vacio k" by (simp add: vacio_iff all_hex_fixed)
qed

lemma ObjectId_canonical:
  assumes "ObjectId s = Inr k"
  shows "ObjectId k = Inr k"
proof -
  from assms have l: "length s = 24" and h: "list_all hexdigit s" and k: "k = map lower_hex s"
    by (auto simp: ObjectId_def split: if_splits)
  have "list_all hexdigit k" using h k by (simp add: list_all_iff hexdigit_lower)
  moreover have "map lower_hex k = k" using k by (simp add: lower_hex_idem)
  ultimately show ?thesis using l k by (simp add: ObjectId_def)
qed


section \<open>Properties of the tank's level operations\<close>

lemma tanque_post_init: "Cisterna_post_init 0 tanque_crudo = Inr tanque"
  by (simp add: Cisterna_post_init_def tanque_crudo_def tanque_def vacio_def strip_def isspace_def)

lemma post_init_bounds:
  assumes "Cisterna_post_init now raw = Inr c"
  shows "0 \<le> c_nivel_actual c \<and> c_nivel_actual c \<le> c_capacidad_total c"
  using assms by (auto simp: Cisterna_post_init_def split: if_splits)

lemma llenar_keeps_bounds:
  assumes "0 \<le> c_nivel_actual c" and "c_nivel_actual c \<le> c_capacidad_total c"
  shows "0 \<le> c_nivel_actual (snd (llenar now x c))
       \<and> c_nivel_actual (snd (llenar now x c)) \<le> c_capacidad_total (snd (llenar now x c))"
  using assms by (simp add: llenar_def Let_def)

lemma consumir_keeps_bounds:
  assumes "0 \<le> c_nivel_actual c" and "c_nivel_actual c \<le> c_capacidad_total c"
  shows "0 \<le> c_nivel_actual (snd (consumir now x c))
       \<and> c_nivel_actual (snd (consumir now x c)) \<le> c_capacidad_total (snd (consumir now x c))"
  using assms by (simp add: consumir_def)

lemma aplicar_keeps_bounds:
  assumes "0 \<le> c_nivel_actual c" and "c_nivel_actual c \<le> c_capacidad_total c"
  shows "0 \<le> c_nivel_actual (snd (aplicar p c))
       \<and> c_nivel_actual (snd (aplicar p c)) \<le> c_capacidad_total (snd (aplicar p c))"
  using assms llenar_keeps_bounds consumir_keeps_bounds by (cases p) simp_all

lemma historia_keeps_bounds:
  assumes "0 \<le> c_nivel_actual c" and "c_nivel_actual c \<le> c_capacidad_total c"
  shows "0 \<le> c_nivel_actual (historia ps c)
       \<and> c_nivel_actual (historia ps c) \<le> c_capacidad_total (historia ps c)"
  using assms
proof (induction ps arbitrary: c)
  case Nil
  then show ?case by simp
next
  case (Cons p ps)
  have "0 \<le> c_nivel_actual (snd (aplicar p c))
      \<and> c_nivel_actual (snd (aplicar p c)) \<le> c_capacidad_total (snd (aplicar p c))"
    using Cons.prems by (rule aplicar_keeps_bounds)
  then show ?case using Cons.IH by simp
qed

text \<open>
  Claim C2.  A tank that came out of the validating constructor (capacity above zero,
  initial level between zero and the capacity) keeps \<open>0 \<le> level \<le> capacity\<close> after every
  sequence of \<open>llenar\<close> and \<open>consumir\<close> calls, failing calls included.
\<close>

theorem C2_level_invariant:
  assumes "Cisterna_post_init now raw = Inr c"
  shows "0 \<le> c_nivel_actual (historia ps c)
       \<and> c_nivel_actual (historia ps c) \<le> c_capacidad_total (historia ps c)"
  using post_init_bounds [OF assms] historia_keeps_bounds by blast

theorem C2_level_invariant_witness:
  "Cisterna_post_init 0 tanque_crudo = Inr tanque
   \<and> 0 \<le> c_nivel_actual (historia [Llenar 1 500, Consumir 2 5000, Consumir 3 300, Llenar 4 (-2)] tanque)
   \<and> c_nivel_actual (historia [Llenar 1 500, Consumir 2 5000, Consumir 3 300, Llenar 4 (-2)] tanque)
       \<le> c_capacidad_total (historia [Llenar 1 500, Consumir 2 5000, Consumir 3 300, Llenar 4 (-2)] tanque)"
  using tanque_post_init
    C2_level_invariant [OF tanque_post_init,
      of "[Llenar 1 500, Consumir 2 5000, Consumir 3 300, Llenar 4 (-2)]"]
  by simp

text \<open>
  Claim C5.  \<open>llenar x\<close> raises exactly when \<open>x \<le> 0\<close>.  For \<open>x > 0\<close> it returns normally
  (there is no overflow error) and the new level is \<open>min (level + x) capacity\<close>; when
  \<open>x\<close> exceeds the free room \<open>capacity - level\<close> the new level is the capacity itself.
\<close>

theorem C5_llenar_clamps:
  "(isl (fst (llenar now x c)) \<longleftrightarrow> x \<le> 0)
   \<and> (0 < x \<longrightarrow>
        fst (llenar now x c) = Inr ()
        \<and> c_nivel_actual (snd (llenar now x c)) = min (c_nivel_actual c + x) (c_capacidad_total c)
        \<and> c_capacidad_total (snd (llenar now x c)) = c_capacidad_total c)
   \<and> (0 < x \<and> x > c_capacidad_total c - c_nivel_actual c \<longrightarrow>
        c_nivel_actual (snd (llenar now x c)) = c_capacidad_total c)"
  by (simp add: llenar_def Let_def min_def)

theorem C5_llenar_clamps_witness:
  "(0::int) < 500 \<and> (500::int) > c_capacidad_total tanque - c_nivel_actual tanque
   \<and> fst (llenar 1 500 tanque) = Inr ()
   \<and> c_nivel_actual (snd (llenar 1 500 tanque)) = 1000
   \<and> isl (fst (llenar 1 (-5) tanque))"
  using C5_llenar_clamps [of 1 500 tanque] C5_llenar_clamps [of 1 "-5" tanque]
  by (simp add: tanque_def)

text \<open>
  Claim C6.  \<open>consumir x\<close> raises exactly when \<open>x \<le> 0\<close> or \<open>x\<close> exceeds the current level;
  a call that raises leaves the tank as it was (so its level is unchanged), and a call that
  returns has lowered the level by exactly \<open>x\<close>.
\<close>

theorem C6_consumir:
  "(isl (fst (consumir now x c)) \<longleftrightarrow> x \<le> 0 \<or> x > c_nivel_actual c)
   \<and> (isl (fst (consumir now x c)) \<longrightarrow> snd (consumir now x c) = c)
   \<and> (\<not> isl (fst (consumir now x c)) \<longrightarrow>
        fst (consumir now x c) = Inr ()
        \<and> c_nivel_actual (snd (consumir now x c)) = c_nivel_actual c - x)"
  by (simp add: consumir_def)

theorem C6_consumir_witness:
  "isl (fst (consumir 1 900 tanque)) \<and> c_nivel_actual (snd (consumir 1 900 tanque)) = 800
   \<and> isl (fst (consumir 1 0 tanque)) \<and> c_nivel_actual (snd (consumir 1 0 tanque)) = 800
   \<and> \<not> isl (fst (consumir 1 300 tanque)) \<and> c_nivel_actual (snd (consumir 1 300 tanque)) = 500"
  using C6_consumir [of 1 900 tanque] C6_consumir [of 1 0 tanque] C6_consumir [of 1 300 tanque]
  by (simp add: tanque_def)

section \<open>RegistrarLlenado: the recorded levels\<close>

lemma find_by_id_key: "find_by_id k col = Some p \<Longrightarrow> fst p = k"
  by (auto simp: find_by_id_def find_Some_iff)

lemma find_by_id_update_one:
  "find_by_id k col = Some p \<Longrightarrow> find_by_id k (update_one k d col) = Some (k, d)"
  by (induction col) (auto simp: find_by_id_def split: if_splits)



lemma cisterna_obtener_por_idD:
  assumes "cisterna_obtener_por_id now st cid = Inr (Some c)"
  obtains k doc where "ObjectId cid = Inr k" and "find_by_id k (cisternas st) = Some doc"
    and "Cisterna_from_dict now doc = Inr c"
  using assms
  by (auto simp: cisterna_obtener_por_id_def bind_err_def split: sum.splits option.splits)


lemma Cisterna_from_dict_bounds:
  "Cisterna_from_dict now doc = Inr c \<Longrightarrow>
     0 \<le> c_nivel_actual c \<and> c_nivel_actual c \<le> c_capacidad_total c"
  unfolding Cisterna_from_dict_def by (rule post_init_bounds)








text \<open>
  The hypotheses on cost, provider and the size of the litres are forced: with a negative
  cost or a blank provider \<open>Llenado.__post_init__\<close> raises, and with litres of \<open>2^63\<close> or
  more the insert of the record raises \<open>OverflowError\<close>; the store is left as it was.
\<close>

lemma registrar_llenado_rejects:
  assumes found: "cisterna_obtener_por_id now st cisterna_id = Inr (Some cisterna)"
    and oper: "c_estado cisterna = OPERATIVA"
    and litros: "0 < litros"
    and bad: "costo < 0 \<or> vacio proveedor"
  shows "RegistrarLlenado_ejecutar now inserted_id st cisterna_id litros costo proveedor
           observaciones
         = (Inl (ValueError (if costo < 0 then Costo_negativo else Proveedor_vacio)), st)"
proof -
  from found obtain k where k: "ObjectId cisterna_id = Inr k"
    by (auto elim: cisterna_obtener_por_idD)
  have nv: "\<not> vacio cisterna_id" using k by (rule ObjectId_not_vacio)
  show ?thesis
    using found oper litros bad nv
    by (auto simp: RegistrarLlenado_ejecutar_def llenar_def Let_def Llenado_post_init_def)
qed

lemma registrar_llenado_overflow:
  assumes found: "cisterna_obtener_por_id now st cisterna_id = Inr (Some cisterna)"
    and oper: "c_estado cisterna = OPERATIVA"
    and litros: "2 ^ 63 \<le> litros"
    and costo: "0 \<le> costo"
    and prov: "\<not> vacio proveedor"
  shows "RegistrarLlenado_ejecutar now inserted_id st cisterna_id litros costo proveedor
           observaciones = (Inl OverflowError, st)"
proof -
  from found obtain k doc where k: "ObjectId cisterna_id = Inr k"
    and fd: "Cisterna_from_dict now doc = Inr cisterna"
    by (rule cisterna_obtener_por_idD)
  have nv: "\<not> vacio cisterna_id" using k by (rule ObjectId_not_vacio)
  have bounds: "0 \<le> c_nivel_actual cisterna" "c_nivel_actual cisterna \<le> c_capacidad_total cisterna"
    using Cisterna_from_dict_bounds [OF fd] by simp_all
  have pos: "0 < litros" using litros by (rule less_le_trans [rotated]) simp
  have nb: "\<not> bson_int litros" using litros by (simp add: bson_int_def)
  show ?thesis
    using found oper pos nb costo prov nv bounds
    by (auto simp: RegistrarLlenado_ejecutar_def llenar_def Let_def Llenado_post_init_def
          llenado_guardar_def)
qed

section \<open>Incident reports: the resolution timestamp\<close>

lemma cambiar_estado_keeps_fecha_resolucion:
  assumes "r_fecha_resolucion r = Some t"
  shows "r_fecha_resolucion (cambiar_estado now nuevo_estado r) = Some t"
  using assms by (simp add: cambiar_estado_def Let_def)

lemma cambiar_estado_first_entry:
  assumes "r_fecha_resolucion r = None" and "nuevo_estado \<in> {RESUELTO, CERRADO}"
  shows "r_fecha_resolucion (cambiar_estado now nuevo_estado r) = Some now"
  using assms by (auto simp: cambiar_estado_def Let_def)

lemma resolver_stamps_now:
  "r_fecha_resolucion (resolver now observaciones r) = Some now"
  by (simp add: resolver_def Let_def)

text \<open>
  Claim C3.  The report below enters \<open>RESUELTO\<close> at clock reading 5, which stamps the
  resolution time 5.  A later \<open>cambiar_estado\<close> into \<open>CERRADO\<close> at reading 7 keeps the
  stamp, as the claim says; a later \<open>resolver\<close> at reading 9 replaces it by 9, against the
  claim.
\<close>

theorem C3_resolver_restamps:
  "r_fecha_resolucion (cambiar_estado 5 RESUELTO reporte_pendiente) = Some 5
   \<and> r_fecha_resolucion (cambiar_estado 7 CERRADO (cambiar_estado 5 RESUELTO reporte_pendiente))
       = Some 5
   \<and> r_estado (resolver 9 ''listo'' (cambiar_estado 5 RESUELTO reporte_pendiente)) = RESUELTO
   \<and> r_fecha_resolucion (resolver 9 ''listo'' (cambiar_estado 5 RESUELTO reporte_pendiente))
       = Some 9
   \<and> r_fecha_resolucion (resolver 9 [] (cambiar_estado 5 RESUELTO reporte_pendiente))
       = Some 9"
  by (simp add: cambiar_estado_def resolver_def reporte_pendiente_def Let_def)

section \<open>Households: construction\<close>

lemma Familia_post_init_fails_iff:
  "isl (Familia_post_init now raw) \<longleftrightarrow>
     vacio (f_direccion raw) \<or> f_num_personas raw \<le> 0
     \<or> f_capacidad_almacenamiento raw \<le> 0 \<or> vacio (f_contacto raw)"
  by (simp add: Familia_post_init_def)

text \<open>
  Claim C4.  The constructor accepts a household whose zone label is three spaces (address,
  contact, occupant count and capacity are valid) and stores the empty zone; the claim
  says it fails.
\<close>

theorem C4_blank_zone_accepted:
  "vacio (f_zona familia_zona_en_blanco)
   \<and> Familia_post_init 3 familia_zona_en_blanco =
       Inr (familia_zona_en_blanco\<lparr>f_zona := [], f_fecha_registro := Some 3,
              f_consumo_promedio_diario := Some 200\<rparr>)"
  by (simp add: Familia_post_init_def familia_zona_en_blanco_def vacio_def strip_def
        isspace_def calcular_consumo_estimado_def)

section \<open>RegistrarFamilia: duplicate contact\<close>

lemma find_Some_mem: "List.find P xs = Some x \<Longrightarrow> x \<in> set xs \<and> P x"
  by (induction xs) (auto split: if_splits)

lemma find_one_hit:
  assumes "p \<in> set col" and "q (snd p)"
  obtains doc where "find_one q col = Some doc" and "doc \<in> set col" and "q (snd doc)"
proof -
  have "find_one q col \<noteq> None"
    unfolding find_one_def find_None_iff using assms by blast
  then obtain doc where d: "find_one q col = Some doc"
    by (cases "find_one q col") simp_all
  then have "List.find (\<lambda>p. q (snd p)) col = Some doc" by (simp add: find_one_def)
  then have "doc \<in> set col \<and> q (snd doc)" by (rule find_Some_mem)
  with d show ?thesis using that by blast
qed

text \<open>
  Claim C7.  When some stored household has the contact of the registration input,
  \<open>RegistrarFamilia.ejecutar\<close> raises the duplicate-contact error (the spec's
  \<open>ConflictError\<close>) whatever the other arguments are, so before the entity's validation
  could raise, and the store is left as it was.
\<close>

theorem C7_duplicate_contact:
  assumes "(k, d) \<in> set (familias st)" and "f_contacto d = contacto"
    and "familias_validas now st"
  shows "RegistrarFamilia_ejecutar now inserted_id st direccion num_personas contacto
           capacidad_almacenamiento tiene_cisterna zona consumo_promedio_diario
         = (Inl (ValueError (Contacto_ya_existe contacto)), st)"
proof -
  from assms(1,2) have "(k, d) \<in> set (familias st)" and "f_contacto (snd (k, d)) = contacto"
    by simp_all
  then obtain doc where hit: "find_one (\<lambda>d. f_contacto d = contacto) (familias st) = Some doc"
    and mem: "doc \<in> set (familias st)"
    by (rule find_one_hit [where q = "\<lambda>d. f_contacto d = contacto"])
  from mem assms(3) have "\<not> isl (Familia_from_dict now doc)"
    by (simp add: familias_validas_def list_all_iff)
  then obtain f where "Familia_from_dict now doc = Inr f"
    by (cases "Familia_from_dict now doc") auto
  with hit have "familia_buscar_por_contacto now st contacto = Inr (Some f)"
    by (simp add: familia_buscar_por_contacto_def bind_err_def)
  then show ?thesis by (simp add: RegistrarFamilia_ejecutar_def)
qed

theorem C7_duplicate_contact_witness:
  "(id_familia, familia_doc) \<in> set (familias almacen2)
   \<and> f_contacto familia_doc = ''70012345''
   \<and> familias_validas 1 almacen2
   \<and> RegistrarFamilia_ejecutar 1 id_nuevo almacen2 [] 0 ''70012345'' 500 True ''Zona Sud'' None
       = (Inl (ValueError (Contacto_ya_existe ''70012345'')), almacen2)"
proof -
  have h1: "(id_familia, familia_doc) \<in> set (familias almacen2)" by (simp add: almacen2_def)
  have h2: "f_contacto familia_doc = ''70012345''" by (simp add: familia_doc_def)
  have h3: "familias_validas 1 almacen2"
    by (simp add: familias_validas_def almacen2_def Familia_from_dict_def Familia_post_init_def
          familia_doc_def vacio_def strip_def isspace_def)
  show ?thesis
    using h1 h2 h3 C7_duplicate_contact [OF h1 h2 h3, of id_nuevo "[]" 0 500 True "''Zona Sud''" None]
    by simp
qed

text \<open>
  The lookup compares the contact as it was passed, and the entity strips it afterwards:
  the stored contact with a space on each side is not found by the lookup, the household is
  constructed, and its insert is refused by the unique index on \<open>contacto\<close>.  (This input is
  outside claim C7, whose contact equals a stored one.)
\<close>

lemma padded_contact_hits_unique_index:
  "RegistrarFamilia_ejecutar 1 id_nuevo almacen2 ''Calle 2'' 3 '' 70012345 '' 500 False
     ''Zona Sud'' None = (Inl DuplicateKeyError, almacen2)"
  by (simp add: RegistrarFamilia_ejecutar_def familia_buscar_por_contacto_def find_one_def
        almacen2_def familia_doc_def Familia_post_init_def familia_guardar_def bson_int_def
        vacio_def strip_def isspace_def calcular_consumo_estimado_def)

section \<open>CrearReporte: the urgency of the stored report\<close>

lemma familia_obtener_por_idD:
  assumes "familia_obtener_por_id now st fid = Inr (Some f)"
  obtains k doc where "ObjectId fid = Inr k" and "find_by_id k (familias st) = Some doc"
    and "Familia_from_dict now doc = Inr f"
  using assms
  by (auto simp: familia_obtener_por_id_def bind_err_def split: sum.splits option.splits)

lemma familia_found_not_vacio:
  assumes "familia_obtener_por_id now st fid = Inr (Some f)"
  shows "\<not> vacio fid" and "fid \<noteq> []"
proof -
  from assms obtain k where "ObjectId fid = Inr k" by (auto elim: familia_obtener_por_idD)
  then show "\<not> vacio fid" and "fid \<noteq> []" by (rule ObjectId_not_vacio)+
qed



lemma ObjectId_id_familia: "ObjectId id_familia = Inr id_familia"
  by (simp add: ObjectId_def id_familia_def hexdigit_def lower_hex_def)

lemma almacen2_familia:
  "familia_obtener_por_id 1 almacen2 id_familia = Inr (Some (familia_doc\<lparr>f_id := Some id_familia\<rparr>))"
  by (simp add: familia_obtener_por_id_def ObjectId_id_familia bind_err_def find_by_id_def
        almacen2_def Familia_from_dict_def Familia_post_init_def familia_doc_def vacio_def
        strip_def isspace_def)



text \<open>
  With a blank description \<open>Reporte.__post_init__\<close> raises and no report is stored.
\<close>

lemma crear_reporte_rejects_blank_description:
  assumes found: "familia_obtener_por_id now st familia_id = Inr (Some familia)"
    and tipo: "TipoReporte_of_value tipo = Some tipo_reporte"
    and urg: "Urgencia_of_value urgencia = Some nivel_urgencia"
    and tank: "sin_id cisterna_id
               \<or> (\<exists>c. cisterna_obtener_por_id now st (the cisterna_id) = Inr (Some c))"
    and desc: "vacio descripcion"
  shows "CrearReporte_ejecutar now inserted_id st familia_id tipo descripcion urgencia
           cisterna_id latitud longitud = (Inl (ValueError Descripcion_vacia), st)"
proof -
  have v: "validar_cisterna_id now st cisterna_id = Inr ()"
    using tank by (auto simp: validar_cisterna_id_def)
  have nf: "\<not> vacio familia_id" using found by (rule familia_found_not_vacio)
  show ?thesis
    using found tipo urg v nf desc
    by (simp add: CrearReporte_ejecutar_def Reporte_post_init_def)
qed

section \<open>RegistrarCisterna: the household flag is written before the tank is validated\<close>

lemma Familia_post_init_facts:
  assumes "Familia_post_init now raw = Inr f"
  shows "\<not> vacio (f_direccion f)" and "strip (f_direccion f) = f_direccion f"
    and "\<not> vacio (f_contacto f)" and "strip (f_contacto f) = f_contacto f"
    and "strip (f_zona f) = f_zona f"
    and "0 < f_num_personas f" and "0 < f_capacidad_almacenamiento f"
    and "f_fecha_registro f \<noteq> None" and "f_consumo_promedio_diario f \<noteq> None"
    and "f_id f = f_id raw"
  using assms
  by (auto simp: Familia_post_init_def vacio_strip strip_idem split: if_splits option.splits)

lemma Familia_post_init_normal:
  assumes "\<not> vacio (f_direccion f)" and "strip (f_direccion f) = f_direccion f"
    and "\<not> vacio (f_contacto f)" and "strip (f_contacto f) = f_contacto f"
    and "strip (f_zona f) = f_zona f"
    and "0 < f_num_personas f" and "0 < f_capacidad_almacenamiento f"
    and "f_fecha_registro f \<noteq> None" and "f_consumo_promedio_diario f \<noteq> None"
  shows "Familia_post_init now f = Inr f"
  using assms by (cases f) (auto simp: Familia_post_init_def)

lemma Familia_from_dict_reflag:
  assumes "Familia_from_dict now doc = Inr f"
  shows "Familia_from_dict now' (fst doc, Familia_to_dict (f\<lparr>f_tiene_cisterna := b\<rparr>))
         = Inr (f\<lparr>f_tiene_cisterna := b\<rparr>)"
proof -
  let ?f1 = "f\<lparr>f_tiene_cisterna := b\<rparr>"
  note p = Familia_post_init_facts [OF assms [unfolded Familia_from_dict_def]]
  have idf: "f_id f = Some (fst doc)" using p(10) by simp
  have "Familia_post_init now' ?f1 = Inr ?f1"
    using p(1-9) by (intro Familia_post_init_normal) simp_all
  moreover have "(Familia_to_dict ?f1)\<lparr>f_id := Some (fst doc)\<rparr> = ?f1"
    using idf by (cases f) (simp add: Familia_to_dict_def)
  ultimately show ?thesis by (simp add: Familia_from_dict_def)
qed

lemma Cisterna_post_init_rejects:
  assumes "vacio (c_ubicacion raw) \<or> c_capacidad_total raw \<le> 0 \<or> c_nivel_actual raw < 0
           \<or> c_nivel_actual raw > c_capacidad_total raw"
  shows "\<exists>m. Cisterna_post_init now raw = Inl (ValueError m)
           \<and> m \<in> {Ubicacion_vacia, Capacidad_total_no_positiva, Nivel_actual_negativo,
                   Nivel_actual_mayor_capacidad}"
  using assms by (auto simp: Cisterna_post_init_def)

lemma marcar_familia_flips:
  assumes found: "familia_obtener_por_id now st familia_id = Inr (Some familia)"
    and flag: "\<not> f_tiene_cisterna familia"
  shows "\<exists>st1. marcar_familia_con_cisterna now st FAMILIAR (Some familia_id) = (Inr (), st1)
           \<and> cisternas st1 = cisternas st
           \<and> familia_obtener_por_id now' st1 familia_id
               = Inr (Some (familia\<lparr>f_tiene_cisterna := True\<rparr>))"
proof -
  from found obtain k doc where k: "ObjectId familia_id = Inr k"
    and doc: "find_by_id k (familias st) = Some doc"
    and fd: "Familia_from_dict now doc = Inr familia"
    by (rule familia_obtener_por_idD)
  have key: "fst doc = k" using doc by (rule find_by_id_key)
  have idf: "f_id familia = Some k"
    using Familia_post_init_facts(10) [OF fd [unfolded Familia_from_dict_def]] key by simp
  let ?f1 = "familia\<lparr>f_tiene_cisterna := True\<rparr>"
  define st1 where "st1 = st\<lparr>familias := update_one k (Familia_to_dict ?f1) (familias st)\<rparr>"
  have upd: "familia_actualizar ?f1 st = (Inr ?f1, st1)"
    using idf ObjectId_not_vacio(3) [OF k] ObjectId_canonical [OF k]
    by (simp add: familia_actualizar_def sin_id_def st1_def)
  have step: "marcar_familia_con_cisterna now st FAMILIAR (Some familia_id) = (Inr (), st1)"
    using found flag upd familia_found_not_vacio(2) [OF found]
    by (simp add: marcar_familia_con_cisterna_def sin_id_def)
  have "find_by_id k (familias st1) = Some (k, Familia_to_dict ?f1)"
    using doc by (simp add: st1_def find_by_id_update_one)
  moreover have "Familia_from_dict now' (k, Familia_to_dict ?f1) = Inr ?f1"
    using Familia_from_dict_reflag [OF fd, of now' True] key by simp
  ultimately have "familia_obtener_por_id now' st1 familia_id = Inr (Some ?f1)"
    using k by (simp add: familia_obtener_por_id_def bind_err_def)
  moreover have "cisternas st1 = cisternas st" by (simp add: st1_def)
  ultimately show ?thesis using step by blast
qed

text \<open>
  Claim C10.  \<open>RegistrarCisterna.ejecutar\<close> with category \<open>familiar\<close>, a reference to an
  existing household whose \<open>tiene_cisterna\<close> flag is false, and tank arguments that the
  tank's constructor rejects, raises that constructor's \<open>ValueError\<close>; no tank has been
  stored, and the household read back from the store has the flag set.
\<close>

theorem C10_flag_persisted_before_validation:
  assumes found: "familia_obtener_por_id now st familia_id = Inr (Some familia)"
    and flag: "\<not> f_tiene_cisterna familia"
    and bad: "vacio ubicacion \<or> capacidad_total \<le> 0 \<or> nivel_actual < 0
              \<or> nivel_actual > capacidad_total"
  shows "\<exists>m st'.
           RegistrarCisterna_ejecutar now inserted_id st ubicacion ''familiar'' capacidad_total
             nivel_actual latitud longitud (Some familia_id) = (Inl (ValueError m), st')
         \<and> m \<in> {Ubicacion_vacia, Capacidad_total_no_positiva, Nivel_actual_negativo,
                 Nivel_actual_mayor_capacidad}
         \<and> cisternas st' = cisternas st
         \<and> familia_obtener_por_id now' st' familia_id
             = Inr (Some (familia\<lparr>f_tiene_cisterna := True\<rparr>))"
proof -
  from marcar_familia_flips [OF found flag, of now']
  obtain st1 where step: "marcar_familia_con_cisterna now st FAMILIAR (Some familia_id) = (Inr (), st1)"
    and same: "cisternas st1 = cisternas st"
    and reread: "familia_obtener_por_id now' st1 familia_id
                 = Inr (Some (familia\<lparr>f_tiene_cisterna := True\<rparr>))"
    by blast
  have tipo: "TipoCisterna_of_value ''familiar'' = Some FAMILIAR"
    by (simp add: TipoCisterna_of_value_def)
  let ?raw = "\<lparr>c_ubicacion = ubicacion, c_tipo = FAMILIAR, c_capacidad_total = capacidad_total,
            c_nivel_actual = nivel_actual, c_latitud = latitud, c_longitud = longitud,
            c_familia_id = Some familia_id, c_estado = OPERATIVA, c_id = None,
            c_fecha_instalacion = None, c_ultima_actualizacion = None\<rparr>"
  from bad have "vacio (c_ubicacion ?raw) \<or> c_capacidad_total ?raw \<le> 0
      \<or> c_nivel_actual ?raw < 0 \<or> c_nivel_actual ?raw > c_capacidad_total ?raw"
    by simp
  from Cisterna_post_init_rejects [OF this, of now] obtain m where
    mk: "Cisterna_post_init now
           \<lparr>c_ubicacion = ubicacion, c_tipo = FAMILIAR, c_capacidad_total = capacidad_total,
            c_nivel_actual = nivel_actual, c_latitud = latitud, c_longitud = longitud,
            c_familia_id = Some familia_id, c_estado = OPERATIVA, c_id = None,
            c_fecha_instalacion = None, c_ultima_actualizacion = None\<rparr> = Inl (ValueError m)"
    and m: "m \<in> {Ubicacion_vacia, Capacidad_total_no_positiva, Nivel_actual_negativo,
                  Nivel_actual_mayor_capacidad}"
    by blast
  have "RegistrarCisterna_ejecutar now inserted_id st ubicacion ''familiar'' capacidad_total
          nivel_actual latitud longitud (Some familia_id) = (Inl (ValueError m), st1)"
    using tipo step mk by (simp add: RegistrarCisterna_ejecutar_def)
  with m same reread show ?thesis by blast
qed

theorem C10_flag_persisted_before_validation_witness:
  "familia_obtener_por_id 1 almacen2 id_familia
     = Inr (Some (familia_doc\<lparr>f_id := Some id_familia\<rparr>))
   \<and> \<not> f_tiene_cisterna (familia_doc\<lparr>f_id := Some id_familia\<rparr>)
   \<and> (500::int) > 100
   \<and> (case RegistrarCisterna_ejecutar 1 id_nuevo almacen2 ''Patio'' ''familiar'' 100 500
              None None (Some id_familia) of
         (Inl e, st') \<Rightarrow>
            e = ValueError Nivel_actual_mayor_capacidad
            \<and> cisternas st' = cisternas almacen2
            \<and> familia_obtener_por_id 2 st' id_familia
                = Inr (Some (familia_doc\<lparr>f_id := Some id_familia, f_tiene_cisterna := True\<rparr>))
            \<and> familia_obtener_por_id 2 st' id_familia
                \<noteq> familia_obtener_por_id 2 almacen2 id_familia
       | (Inr c, st') \<Rightarrow> False)"
proof -
  have fl: "\<not> f_tiene_cisterna (familia_doc\<lparr>f_id := Some id_familia\<rparr>)"
    by (simp add: familia_doc_def)
  have bad: "vacio ''Patio'' \<or> (100::int) \<le> 0 \<or> (500::int) < 0 \<or> (500::int) > 100" by simp
  have before: "familia_obtener_por_id 2 almacen2 id_familia
                  = Inr (Some (familia_doc\<lparr>f_id := Some id_familia\<rparr>))"
    by (simp add: familia_obtener_por_id_def ObjectId_id_familia bind_err_def find_by_id_def
          almacen2_def Familia_from_dict_def Familia_post_init_def familia_doc_def vacio_def
          strip_def isspace_def)
  have run: "fst (RegistrarCisterna_ejecutar 1 id_nuevo almacen2 ''Patio'' ''familiar'' 100 500
              None None (Some id_familia)) = Inl (ValueError Nivel_actual_mayor_capacidad)"
    using almacen2_familia fl
    by (simp add: RegistrarCisterna_ejecutar_def TipoCisterna_of_value_def
          marcar_familia_con_cisterna_def sin_id_def id_familia_def familia_actualizar_def
          ObjectId_def hexdigit_def lower_hex_def Cisterna_post_init_def vacio_def strip_def
          isspace_def split: prod.splits sum.splits)
  from C10_flag_persisted_before_validation [OF almacen2_familia fl bad, of id_nuevo None None 2]
  obtain m st' where
    "RegistrarCisterna_ejecutar 1 id_nuevo almacen2 ''Patio'' ''familiar'' 100 500
       None None (Some id_familia) = (Inl (ValueError m), st')"
    "cisternas st' = cisternas almacen2"
    "familia_obtener_por_id 2 st' id_familia
       = Inr (Some (familia_doc\<lparr>f_id := Some id_familia, f_tiene_cisterna := True\<rparr>))"
    by auto
  then show ?thesis using almacen2_familia fl before run by (auto simp: familia_doc_def)
qed

section \<open>Fill percentages in binary64\<close>

lemma fmul_truediv_eval:
  "fmul_int (truediv 0 1000) 100 = (0, 1)"
  "fmul_int (truediv 100 1000) 100 = (5629499534213120, 562949953421312)"
  "fmul_int (truediv 300 1000) 100 = (8444249301319680, 281474976710656)"
  "fmul_int (truediv 800 1000) 100 = (5629499534213120, 70368744177664)"
  "fmul_int (truediv 200000000000000001 1000000000000000000) 100
     = (5629499534213120, 281474976710656)"
  by code_simp+

lemma porcentaje_eval:
  "float_value (fmul_int (truediv 0 1000) 100) = 0"
  "float_value (fmul_int (truediv 100 1000) 100) = 10"
  "float_value (fmul_int (truediv 300 1000) 100) = 30"
  "float_value (fmul_int (truediv 800 1000) 100) = 80"
  "float_value (fmul_int (truediv 200000000000000001 1000000000000000000) 100) = 20"
  by (simp_all add: fmul_truediv_eval float_value_def)

text \<open>
  Rounding matters at the threshold: the tank below holds more than 20 percent of its
  capacity, and the two roundings of \<open>porcentaje_lleno\<close> give exactly 20, so the tank counts
  as critical.
\<close>

lemma porcentaje_lleno_rounds_to_threshold:
  "real_of_int (c_nivel_actual tanque_enorme) / real_of_int (c_capacidad_total tanque_enorme) * 100
     > 20
   \<and> porcentaje_lleno tanque_enorme = 20
   \<and> nivel_critico 20 tanque_enorme"
  by (simp add: tanque_enorme_def tanque_def porcentaje_lleno_def nivel_critico_def
        porcentaje_eval)

section \<open>ObtenerDashboard: the alerts\<close>

lemma alertas_de_spec:
  "alertas_de vacias criticas urgentes bajas = alertas_spec vacias criticas urgentes bajas"
  by (simp add: alertas_de_def alertas_spec_def Let_def alerta_vacias_def
        alerta_nivel_critico_def alerta_reportes_urgentes_def alerta_nivel_bajo_def)

lemma traverse_all_ok:
  assumes "list_all (\<lambda>x. \<not> isl (f x)) xs"
  shows "\<exists>ys. traverse f xs = Inr ys"
  using assms
proof (induction xs)
  case Nil
  then show ?case by simp
next
  case (Cons x xs)
  then obtain y ys where "f x = Inr y" and "traverse f xs = Inr ys"
    by (cases "f x") auto
  then show ?case by simp
qed

lemma traverse_find_all_ok:
  assumes "list_all (\<lambda>x. \<not> isl (f x)) col"
  shows "\<exists>ys. traverse f (find_all q col) = Inr ys"
proof -
  have "list_all (\<lambda>x. \<not> isl (f x)) (find_all q col)"
    using assms by (simp add: find_all_def list_all_iff)
  then show ?thesis by (rule traverse_all_ok)
qed

lemma dashboard_total:
  assumes "familias_validas now st" and "cisternas_validas now st"
  shows "\<exists>d. ObtenerDashboard_ejecutar now st = Inr d"
proof -
  note f = assms(1) [unfolded familias_validas_def]
  note c = assms(2) [unfolded cisternas_validas_def]
  obtain a1 where a1: "familia_obtener_activas now st = Inr a1"
    using traverse_find_all_ok [OF f] unfolding familia_obtener_activas_def by blast
  obtain a2 where a2: "familia_obtener_con_cisterna now st = Inr a2"
    using traverse_find_all_ok [OF f] unfolding familia_obtener_con_cisterna_def by blast
  obtain a3 where a3: "familia_obtener_sin_cisterna now st = Inr a3"
    using traverse_find_all_ok [OF f] unfolding familia_obtener_sin_cisterna_def by blast
  obtain b1 where b1: "cisterna_obtener_operativas now st = Inr b1"
    using traverse_find_all_ok [OF c] unfolding cisterna_obtener_operativas_def by blast
  obtain b2 where b2: "obtener_vacias now st = Inr b2"
    using traverse_find_all_ok [OF c] unfolding obtener_vacias_def by blast
  have b3: "obtener_con_nivel_critico now st 20 = Inr (filter (nivel_critico 20) b1)"
    using b1 by (simp add: obtener_con_nivel_critico_def cisterna_obtener_operativas_def
                   bind_err_def)
  have b4: "obtener_con_nivel_bajo now st 40 = Inr (filter (nivel_bajo 40) b1)"
    using b1 by (simp add: obtener_con_nivel_bajo_def cisterna_obtener_operativas_def
                   bind_err_def)
  obtain b5 where b5: "obtener_prioritarias now st = Inr b5"
    using traverse_find_all_ok [OF c] unfolding obtener_prioritarias_def by blast
  show ?thesis
    using a1 a2 a3 b1 b2 b3 b4 b5
    by (simp add: ObtenerDashboard_ejecutar_def bind_err_def Let_def)
qed

lemma dashboard_alertas:
  assumes "ObtenerDashboard_ejecutar now st = Inr d"
  shows "d_alertas d = alertas_spec (d_cisternas_vacias d) (d_cisternas_nivel_critico d)
                         (d_reportes_urgentes d) (d_cisternas_nivel_bajo d)"
  using assms
  by (auto simp: ObtenerDashboard_ejecutar_def bind_err_def Let_def alertas_de_spec
           split: sum.splits)

lemma traverse_filter_length:
  assumes "traverse f xs = Inr ys" and "\<And>x y. f x = Inr y \<Longrightarrow> P y = Q x"
  shows "length (filter P ys) = length (filter Q xs)"
  using assms(1)
proof (induction xs arbitrary: ys)
  case Nil
  then show ?case by simp
next
  case (Cons x xs)
  then obtain y zs where y: "f x = Inr y" and zs: "traverse f xs = Inr zs" and ys: "ys = y # zs"
    by (auto split: sum.splits)
  have "length (filter P zs) = length (filter Q xs)" using zs by (rule Cons.IH)
  moreover have "P y = Q x" using y by (rule assms(2))
  ultimately show ?case by (simp add: ys)
qed

lemma traverse_length:
  assumes "traverse f xs = Inr ys"
  shows "length ys = length xs"
  using traverse_filter_length [OF assms, of "\<lambda>y. True" "\<lambda>x. True"] by simp

lemma Cisterna_from_dict_porcentaje:
  assumes "Cisterna_from_dict now doc = Inr c"
  shows "porcentaje_lleno c = porcentaje_lleno (snd doc)"
  using assms
  by (auto simp: Cisterna_from_dict_def Cisterna_post_init_def porcentaje_lleno_def
           split: if_splits)

lemma obtener_vacias_count:
  assumes "obtener_vacias now st = Inr vacias"
  shows "length vacias = cuenta_vacias st"
  using traverse_length [OF assms [unfolded obtener_vacias_def]]
  by (simp add: cuenta_vacias_def find_all_def)

lemma obtener_con_nivel_critico_count:
  assumes "obtener_con_nivel_critico now st 20 = Inr criticas"
  shows "length criticas = cuenta_criticas st"
proof -
  from assms obtain cs where
    cs: "traverse (Cisterna_from_dict now)
           (find_all (\<lambda>d. c_estado d = OPERATIVA) (cisternas st)) = Inr cs"
    and cr: "criticas = filter (nivel_critico 20) cs"
    by (auto simp: obtener_con_nivel_critico_def bind_err_def split: sum.splits)
  have "length (filter (nivel_critico 20) cs)
          = length (filter (\<lambda>p. porcentaje_lleno (snd p) \<le> 20)
                      (find_all (\<lambda>d. c_estado d = OPERATIVA) (cisternas st)))"
    using cs by (rule traverse_filter_length)
                (simp add: nivel_critico_def Cisterna_from_dict_porcentaje)
  then show ?thesis
    by (simp add: cr cuenta_criticas_def find_all_def conj_commute)
qed

lemma obtener_con_nivel_bajo_count:
  assumes "obtener_con_nivel_bajo now st 40 = Inr bajas"
  shows "length bajas = cuenta_bajas st"
proof -
  from assms obtain cs where
    cs: "traverse (Cisterna_from_dict now)
           (find_all (\<lambda>d. c_estado d = OPERATIVA) (cisternas st)) = Inr cs"
    and cr: "bajas = filter (nivel_bajo 40) cs"
    by (auto simp: obtener_con_nivel_bajo_def bind_err_def split: sum.splits)
  have "length (filter (nivel_bajo 40) cs)
          = length (filter (\<lambda>p. porcentaje_lleno (snd p) \<le> 40)
                      (find_all (\<lambda>d. c_estado d = OPERATIVA) (cisternas st)))"
    using cs by (rule traverse_filter_length)
                (simp add: nivel_bajo_def Cisterna_from_dict_porcentaje)
  then show ?thesis
    by (simp add: cr cuenta_bajas_def find_all_def conj_commute)
qed

lemma contar_urgentes_count: "contar_urgentes st = cuenta_urgentes st"
  by (simp add: contar_urgentes_def count_documents_def cuenta_urgentes_def)

lemma dashboard_counts:
  assumes "ObtenerDashboard_ejecutar now st = Inr d"
  shows "d_cisternas_vacias d = cuenta_vacias st"
    and "d_cisternas_nivel_critico d = cuenta_criticas st"
    and "d_reportes_urgentes d = cuenta_urgentes st"
    and "d_cisternas_nivel_bajo d = cuenta_bajas st"
proof -
  from assms obtain vacias criticas bajas where
    v: "obtener_vacias now st = Inr vacias"
    and c: "obtener_con_nivel_critico now st 20 = Inr criticas"
    and b: "obtener_con_nivel_bajo now st 40 = Inr bajas"
    and d: "d_cisternas_vacias d = length vacias" "d_cisternas_nivel_critico d = length criticas"
           "d_reportes_urgentes d = contar_urgentes st" "d_cisternas_nivel_bajo d = length bajas"
    by (auto simp: ObtenerDashboard_ejecutar_def bind_err_def Let_def split: sum.splits)
  show "d_cisternas_vacias d = cuenta_vacias st"
    using d(1) obtener_vacias_count [OF v] by simp
  show "d_cisternas_nivel_critico d = cuenta_criticas st"
    using d(2) obtener_con_nivel_critico_count [OF c] by simp
  show "d_reportes_urgentes d = cuenta_urgentes st"
    using d(3) by (simp add: contar_urgentes_count)
  show "d_cisternas_nivel_bajo d = cuenta_bajas st"
    using d(4) obtener_con_nivel_bajo_count [OF b] by simp
qed

lemma alertas_spec_proj:
  "map (\<lambda>a. (a_tipo a, a_cantidad a)) (alertas_spec v c u b)
     = filter (\<lambda>p. 0 < snd p)
         [(''critico'', v), (''urgente'', c), (''urgente'', u), (''advertencia'', b)]"
  by (simp add: alertas_spec_def alerta_vacias_def alerta_nivel_critico_def
        alerta_reportes_urgentes_def alerta_nivel_bajo_def)

lemma alertas_spec_zero: "alertas_spec 0 0 0 0 = []"
  by (simp add: alertas_spec_def alerta_vacias_def alerta_nivel_critico_def
        alerta_reportes_urgentes_def alerta_nivel_bajo_def)

lemma sin_cisternas_ni_reportes:
  assumes "cisternas st = []" and "reportes st = []"
  shows "cuenta_vacias st = 0" and "cuenta_criticas st = 0" and "cuenta_urgentes st = 0"
    and "cuenta_bajas st = 0"
  using assms
  by (simp_all add: cuenta_vacias_def cuenta_criticas_def cuenta_urgentes_def cuenta_bajas_def)

text \<open>
  Claim C9, as stated, fails.  The store below holds a tank at 10 percent, which is at
  critical (and low) level by \<open>Cisterna.nivel_critico\<close>, and a report that is urgent by
  \<open>Reporte.es_urgente\<close> and not resolved by \<open>Reporte.esta_resuelto\<close>; the tank is damaged
  and the report is in progress, the repositories count neither, and the dashboard has no
  alert.
\<close>

theorem C9_uncounted_counterexample:
  "cisternas almacen5 = [(id_tanque, tanque_danado)]
   \<and> nivel_critico 20 tanque_danado \<and> nivel_bajo 40 tanque_danado
   \<and> reportes almacen5 = [(id_familia, reporte_en_proceso)]
   \<and> es_urgente reporte_en_proceso \<and> \<not> esta_resuelto reporte_en_proceso
   \<and> map_sum id d_alertas (ObtenerDashboard_ejecutar 1 almacen5) = Inr []"
  by (simp add: almacen5_def tanque_danado_def reporte_en_proceso_def tanque_def
        reporte_pendiente_def nivel_critico_def nivel_bajo_def porcentaje_lleno_def
        porcentaje_eval es_urgente_def esta_resuelto_def
        ObtenerDashboard_ejecutar_def bind_err_def Let_def
        familia_obtener_activas_def familia_obtener_con_cisterna_def
        familia_obtener_sin_cisterna_def cisterna_obtener_operativas_def obtener_vacias_def
        obtener_con_nivel_critico_def obtener_con_nivel_bajo_def obtener_prioritarias_def
        find_all_def contar_urgentes_def count_documents_def alertas_de_def)

text \<open>
  Claim C9, amended.  On a store whose household and tank documents are accepted by
  \<open>from_dict\<close> the dashboard is returned.  Whenever it is returned, its alerts are the four
  candidates in this order, without those whose count is zero: \<open>critico\<close> with the number
  of stored tanks whose level is 0; \<open>urgente\<close> with the number of operational tanks whose
  fill percentage is at most 20; \<open>urgente\<close> with the number of reports of urgency high or
  critical whose status is pending or in review; \<open>advertencia\<close> with the number of
  operational tanks whose fill percentage is at most 40.  No alert has count zero, and on
  every store without tanks and without reports the alerts are empty.
\<close>

theorem C9_alertas:
  "(familias_validas now st \<and> cisternas_validas now st
      \<longrightarrow> (\<exists>d. ObtenerDashboard_ejecutar now st = Inr d))
   \<and> (\<forall>d. ObtenerDashboard_ejecutar now st = Inr d \<longrightarrow>
         d_alertas d = alertas_spec (cuenta_vacias st) (cuenta_criticas st)
                         (cuenta_urgentes st) (cuenta_bajas st)
         \<and> map (\<lambda>a. (a_tipo a, a_cantidad a)) (d_alertas d)
             = filter (\<lambda>p. 0 < snd p)
                 [(''critico'', cuenta_vacias st), (''urgente'', cuenta_criticas st),
                  (''urgente'', cuenta_urgentes st), (''advertencia'', cuenta_bajas st)]
         \<and> (\<forall>a \<in> set (d_alertas d). 0 < a_cantidad a)
         \<and> (cisternas st = [] \<and> reportes st = [] \<longrightarrow> d_alertas d = []))
   \<and> (cisternas st = [] \<and> reportes st = [] \<and> familias_validas now st
        \<longrightarrow> (\<exists>d. ObtenerDashboard_ejecutar now st = Inr d \<and> d_alertas d = []))"
proof (intro conjI allI impI)
  assume "familias_validas now st \<and> cisternas_validas now st"
  then show "\<exists>d. ObtenerDashboard_ejecutar now st = Inr d"
    using dashboard_total by blast
next
  fix d assume d: "ObtenerDashboard_ejecutar now st = Inr d"
  show eq: "d_alertas d = alertas_spec (cuenta_vacias st) (cuenta_criticas st)
                         (cuenta_urgentes st) (cuenta_bajas st)"
    using dashboard_alertas [OF d] dashboard_counts [OF d] by simp
  show "map (\<lambda>a. (a_tipo a, a_cantidad a)) (d_alertas d)
             = filter (\<lambda>p. 0 < snd p)
                 [(''critico'', cuenta_vacias st), (''urgente'', cuenta_criticas st),
                  (''urgente'', cuenta_urgentes st), (''advertencia'', cuenta_bajas st)]"
    unfolding eq by (rule alertas_spec_proj)
  show "\<forall>a \<in> set (d_alertas d). 0 < a_cantidad a"
    unfolding eq by (simp add: alertas_spec_def)
  assume "cisternas st = [] \<and> reportes st = []"
  then show "d_alertas d = []"
    unfolding eq by (simp add: sin_cisternas_ni_reportes alertas_spec_zero)
next
  assume h: "cisternas st = [] \<and> reportes st = [] \<and> familias_validas now st"
  then have "cisternas_validas now st" by (simp add: cisternas_validas_def)
  with h obtain d where d: "ObtenerDashboard_ejecutar now st = Inr d"
    using dashboard_total by blast
  have "d_alertas d = alertas_spec (cuenta_vacias st) (cuenta_criticas st)
                         (cuenta_urgentes st) (cuenta_bajas st)"
    using dashboard_alertas [OF d] dashboard_counts [OF d] by simp
  then have "d_alertas d = []"
    using h by (simp add: sin_cisternas_ni_reportes alertas_spec_zero)
  with d show "\<exists>d. ObtenerDashboard_ejecutar now st = Inr d \<and> d_alertas d = []" by blast
qed

lemmas store_eval =
  Familia_from_dict_def Familia_post_init_def familia_doc_def
  Cisterna_from_dict_def Cisterna_post_init_def tanque_def reporte_pendiente_def
  vacio_def strip_def isspace_def

lemma almacen3_valido: "familias_validas 1 almacen3 \<and> cisternas_validas 1 almacen3"
  by (simp add: familias_validas_def cisternas_validas_def almacen3_def store_eval)

lemma almacen3_counts:
  "cuenta_vacias almacen3 = 1 \<and> cuenta_criticas almacen3 = 1
   \<and> cuenta_urgentes almacen3 = 1 \<and> cuenta_bajas almacen3 = 2"
  by (simp add: cuenta_vacias_def cuenta_criticas_def cuenta_urgentes_def cuenta_bajas_def
        almacen3_def tanque_def reporte_pendiente_def porcentaje_lleno_def porcentaje_eval)

lemma almacen4_valido: "familias_validas 1 almacen4 \<and> cisternas_validas 1 almacen4"
  by (simp add: familias_validas_def cisternas_validas_def almacen4_def store_eval)

lemma almacen4_counts:
  "cuenta_vacias almacen4 = 0 \<and> cuenta_criticas almacen4 = 0
   \<and> cuenta_urgentes almacen4 = 0 \<and> cuenta_bajas almacen4 = 1"
  by (simp add: cuenta_vacias_def cuenta_criticas_def cuenta_urgentes_def cuenta_bajas_def
        almacen4_def tanque_def porcentaje_lleno_def porcentaje_eval)

theorem C9_alertas_witness:
  "familias_validas 1 almacen3 \<and> cisternas_validas 1 almacen3
   \<and> familias_validas 1 almacen4 \<and> cisternas_validas 1 almacen4
   \<and> cisternas almacen_vacio = [] \<and> reportes almacen_vacio = []
   \<and> familias_validas 1 almacen_vacio
   \<and> (case ObtenerDashboard_ejecutar 1 almacen3 of
         Inr d \<Rightarrow> map (\<lambda>a. (a_tipo a, a_cantidad a)) (d_alertas d)
                    = [(''critico'', 1), (''urgente'', 1), (''urgente'', 1), (''advertencia'', 2)]
       | Inl e \<Rightarrow> False)
   \<and> (case ObtenerDashboard_ejecutar 1 almacen4 of
         Inr d \<Rightarrow> map (\<lambda>a. (a_tipo a, a_cantidad a)) (d_alertas d) = [(''advertencia'', 1)]
       | Inl e \<Rightarrow> False)
   \<and> (case ObtenerDashboard_ejecutar 1 almacen_vacio of
         Inr d \<Rightarrow> d_alertas d = []
       | Inl e \<Rightarrow> False)"
proof -
  have v0: "cisternas almacen_vacio = [] \<and> reportes almacen_vacio = []
            \<and> familias_validas 1 almacen_vacio"
    by (simp add: almacen_vacio_def familias_validas_def)
  from C9_alertas [of 1 almacen3, THEN conjunct1, rule_format, OF almacen3_valido]
  obtain d3 where d3: "ObtenerDashboard_ejecutar 1 almacen3 = Inr d3" by blast
  from C9_alertas [of 1 almacen4, THEN conjunct1, rule_format, OF almacen4_valido]
  obtain d4 where d4: "ObtenerDashboard_ejecutar 1 almacen4 = Inr d4" by blast
  from C9_alertas [of 1 almacen_vacio, THEN conjunct2, THEN conjunct2, rule_format, OF v0]
  obtain d0 where d0: "ObtenerDashboard_ejecutar 1 almacen_vacio = Inr d0"
    and a0: "d_alertas d0 = []" by blast
  have "map (\<lambda>a. (a_tipo a, a_cantidad a)) (d_alertas d3)
          = [(''critico'', 1), (''urgente'', 1), (''urgente'', 1), (''advertencia'', 2)]"
    using C9_alertas [of 1 almacen3, THEN conjunct2, THEN conjunct1, rule_format, OF d3,
            THEN conjunct2, THEN conjunct1] almacen3_counts
    by simp
  moreover have "map (\<lambda>a. (a_tipo a, a_cantidad a)) (d_alertas d4) = [(''advertencia'', 1)]"
    using C9_alertas [of 1 almacen4, THEN conjunct2, THEN conjunct1, rule_format, OF d4,
            THEN conjunct2, THEN conjunct1] almacen4_counts
    by simp
  ultimately show ?thesis
    using almacen3_valido almacen4_valido v0 d3 d4 d0 a0 by simp
qed

end
